theory Spec2Isabelle
  imports Complex_Main "HOL-Library.Word"
begin

section \<open>Conventions of the embedding\<close>

text \<open>
  The program is \<^verbatim>\<open>main.cpp\<close>: the class \<^verbatim>\<open>Terrain\<close>, the loader
  \<^verbatim>\<open>loadTerrain\<close> and the game's global variables with their callbacks.

  \<^item> A C++ \<^verbatim>\<open>float\<close> is modelled as a \<^typ>\<open>real\<close>: rounding, infinities and NaN
    are not modelled. The statements below are about which cells are read and written and
    which formula is applied. The evaluations on flat terrains involve small integers and
    halves only, which binary floating point computes exactly; the heights of the loaded
    example are compared with a tolerance far above any rounding error.
  \<^item> A C++ \<^verbatim>\<open>int\<close> is an \<^typ>\<open>int\<close>. Where a computed value can leave the range
    of the 32-bit machine integer, the range is written out and leaving it is undefined
    behaviour (signed overflow): the pixel index of the loader and the score counter of
    the game.
  \<^item> An array obtained from \<^verbatim>\<open>new T[n]\<close> is a list of length \<open>n\<close>. The source
    never initialises such an array, so its initial content is a parameter of the model.
  \<^item> The source indexes raw arrays and checks no bounds. An index outside the array is
    undefined behaviour in C++; the model returns \<open>Inl UndefinedBehaviour\<close> there.
\<close>

datatype error =
    BadAlloc              \<comment> \<open>thrown by \<^verbatim>\<open>new T[n]\<close> for a negative \<open>n\<close>\<close>
  | UndefinedBehaviour    \<comment> \<open>a raw array indexed outside its bounds\<close>
  | InvalidDimension      \<comment> \<open>named by the specification; the source never raises it\<close>
  | OutOfRange            \<comment> \<open>named by the specification; the source never raises it\<close>

section \<open>Vec3f\<close>

text \<open>
  Modelled from the spec: \<^verbatim>\<open>vec3f.h\<close> (the class \<^verbatim>\<open>Vec3f\<close>) is included by
  \<^verbatim>\<open>main.cpp\<close> and is not among the sources. The specification speaks of 3D vectors,
  their cross product, their magnitude, normalisation to unit length, sums and scaling;
  these are the usual operations on three components.
\<close>

datatype Vec3f = Vec3f (v0: real) (v1: real) (v2: real)

text \<open>Modelled from the spec: \<^verbatim>\<open>operator+=\<close> of the missing \<^verbatim>\<open>vec3f.h\<close>,
  the componentwise sum.\<close>

definition Vec3f_add :: "Vec3f \<Rightarrow> Vec3f \<Rightarrow> Vec3f" where
  "Vec3f_add a b = Vec3f (v0 a + v0 b) (v1 a + v1 b) (v2 a + v2 b)"

text \<open>Modelled from the spec: \<^verbatim>\<open>operator*\<close> of the missing \<^verbatim>\<open>vec3f.h\<close>,
  a vector scaled by a factor.\<close>

definition Vec3f_scale :: "Vec3f \<Rightarrow> real \<Rightarrow> Vec3f" where
  "Vec3f_scale a s = Vec3f (v0 a * s) (v1 a * s) (v2 a * s)"

text \<open>Modelled from the spec: \<^verbatim>\<open>Vec3f::cross\<close> of the missing \<^verbatim>\<open>vec3f.h\<close>,
  the cross product \<open>a \<times> b\<close> in this order.\<close>

definition Vec3f_cross :: "Vec3f \<Rightarrow> Vec3f \<Rightarrow> Vec3f" where
  "Vec3f_cross a b =
     Vec3f (v1 a * v2 b - v2 a * v1 b)
           (v2 a * v0 b - v0 a * v2 b)
           (v0 a * v1 b - v1 a * v0 b)"

text \<open>Modelled from the spec: \<^verbatim>\<open>Vec3f::magnitude\<close> of the missing \<^verbatim>\<open>vec3f.h\<close>,
  the Euclidean length.\<close>

definition Vec3f_magnitude :: "Vec3f \<Rightarrow> real" where
  "Vec3f_magnitude a = sqrt (v0 a * v0 a + v1 a * v1 a + v2 a * v2 a)"

text \<open>Modelled from the spec: \<^verbatim>\<open>Vec3f::normalize\<close> of the missing \<^verbatim>\<open>vec3f.h\<close>,
  the vector divided by its magnitude ("normalized to unit length").\<close>

definition Vec3f_normalize :: "Vec3f \<Rightarrow> Vec3f" where
  "Vec3f_normalize a =
     (let m = Vec3f_magnitude a in Vec3f (v0 a / m) (v1 a / m) (v2 a / m))"

section \<open>Loops\<close>

text \<open>\<^verbatim>\<open>for(int i = i0; i < n; i++) body\<close>, the loop of every function below.\<close>

function for_loop :: "int \<Rightarrow> int \<Rightarrow> (int \<Rightarrow> 's \<Rightarrow> 's) \<Rightarrow> 's \<Rightarrow> 's" where
  "for_loop i n body s = (if i < n then for_loop (i + 1) n body (body i s) else s)"
  by pat_completeness auto
termination
  by (relation "measure (\<lambda>(i, n, body, s). nat (n - i))") auto

declare for_loop.simps [simp del]

section \<open>Terrain\<close>

record Terrain =
  w :: int
  l :: int
  hs :: "real list list"
  normals :: "Vec3f list list"
  computedNormals :: bool

text \<open>\<^verbatim>\<open>new T[n]\<close>: a negative length throws; the elements are not initialised by the
  source, \<open>init\<close> is what the storage holds.\<close>

definition new_array :: "int \<Rightarrow> (nat \<Rightarrow> 'a) \<Rightarrow> error + 'a list" where
  "new_array n init = (if n < 0 then Inl BadAlloc else Inr (map init [0..<nat n]))"

text \<open>\<^verbatim>\<open>for(int i = 0; i < l; i++) rows[i] = new T[w];\<close> after
  \<^verbatim>\<open>rows = new T*[l]\<close>: the rows allocated so far, or the first failure.\<close>

fun new_rows :: "nat \<Rightarrow> int \<Rightarrow> (nat \<Rightarrow> nat \<Rightarrow> 'a) \<Rightarrow> error + 'a list list" where
  "new_rows 0 w2 init = Inr []"
| "new_rows (Suc i) w2 init =
     (case new_rows i w2 init of
        Inl e \<Rightarrow> Inl e
      | Inr rows \<Rightarrow>
          (case new_array w2 (init i) of
             Inl e \<Rightarrow> Inl e
           | Inr row \<Rightarrow> Inr (rows @ [row])))"

text \<open>The constructor \<^verbatim>\<open>Terrain(int w2, int l2)\<close>. \<open>mem\<close> is the content of the
  freshly allocated height rows and \<open>dv\<close> the value of a default-constructed
  \<^verbatim>\<open>Vec3f\<close> (its constructor is in the missing \<^verbatim>\<open>vec3f.h\<close>).\<close>

definition new_Terrain :: "int \<Rightarrow> int \<Rightarrow> (nat \<Rightarrow> nat \<Rightarrow> real) \<Rightarrow> Vec3f \<Rightarrow> error + Terrain" where
  "new_Terrain w2 l2 mem dv =
     (if l2 < 0 then Inl BadAlloc
      else case new_rows (nat l2) w2 mem of
        Inl e \<Rightarrow> Inl e
      | Inr hs0 \<Rightarrow>
          (case new_rows (nat l2) w2 (\<lambda>i j. dv) of
             Inl e \<Rightarrow> Inl e
           | Inr normals0 \<Rightarrow>
               Inr \<lparr> w = w2, l = l2, hs = hs0, normals = normals0,
                     computedNormals = False \<rparr>))"

text \<open>\<^verbatim>\<open>int width()\<close> and \<^verbatim>\<open>int length()\<close>\<close>

definition Terrain_width :: "Terrain \<Rightarrow> int" where
  "Terrain_width t = w t"

definition Terrain_length :: "Terrain \<Rightarrow> int" where
  "Terrain_length t = l t"

text \<open>The cells \<open>(x, z)\<close> for which \<^verbatim>\<open>hs[z][x]\<close> and \<^verbatim>\<open>normals[z][x]\<close> lie
  inside the allocated arrays.\<close>

definition in_bounds :: "Terrain \<Rightarrow> int \<Rightarrow> int \<Rightarrow> bool" where
  "in_bounds t x z \<longleftrightarrow> 0 \<le> x \<and> x < w t \<and> 0 \<le> z \<and> z < l t"

text \<open>\<^verbatim>\<open>void setHeight(int x, int z, float y)\<close>\<close>

definition setHeight :: "Terrain \<Rightarrow> int \<Rightarrow> int \<Rightarrow> real \<Rightarrow> error + Terrain" where
  "setHeight t x z y =
     (if in_bounds t x z
      then Inr (t\<lparr> hs := (hs t)[nat z := (hs t ! nat z)[nat x := y]],
                   computedNormals := False \<rparr>)
      else Inl UndefinedBehaviour)"

text \<open>\<^verbatim>\<open>float getHeight(int x, int z)\<close>\<close>

definition getHeight :: "Terrain \<Rightarrow> int \<Rightarrow> int \<Rightarrow> error + real" where
  "getHeight t x z =
     (if in_bounds t x z then Inr (hs t ! nat z ! nat x) else Inl UndefinedBehaviour)"

text \<open>The body of the first pair of loops of \<^verbatim>\<open>computeNormals\<close>: the rough normal
  of the cell \<open>(x, z)\<close>. The four edge vectors are default-constructed (\<open>dv\<close>) and
  assigned only where the neighbour exists.\<close>

definition rough_normal :: "Terrain \<Rightarrow> Vec3f \<Rightarrow> int \<Rightarrow> int \<Rightarrow> Vec3f" where
  "rough_normal t dv x z =
     (let sum = Vec3f 0 0 0;
          out = (if z > 0
                 then Vec3f 0 (hs t ! nat (z - 1) ! nat x - hs t ! nat z ! nat x) (- 1)
                 else dv);
          inn = (if z < l t - 1
                 then Vec3f 0 (hs t ! nat (z + 1) ! nat x - hs t ! nat z ! nat x) 1
                 else dv);
          left = (if x > 0
                  then Vec3f (- 1) (hs t ! nat z ! nat (x - 1) - hs t ! nat z ! nat x) 0
                  else dv);
          right = (if x < w t - 1
                   then Vec3f 1 (hs t ! nat z ! nat (x + 1) - hs t ! nat z ! nat x) 0
                   else dv);
          sum = (if x > 0 \<and> z > 0
                 then Vec3f_add sum (Vec3f_normalize (Vec3f_cross out left)) else sum);
          sum = (if x > 0 \<and> z < l t - 1
                 then Vec3f_add sum (Vec3f_normalize (Vec3f_cross left inn)) else sum);
          sum = (if x < w t - 1 \<and> z < l t - 1
                 then Vec3f_add sum (Vec3f_normalize (Vec3f_cross inn right)) else sum);
          sum = (if x < w t - 1 \<and> z > 0
                 then Vec3f_add sum (Vec3f_normalize (Vec3f_cross right out)) else sum)
      in sum)"

definition FALLOUT_RATIO :: real where
  "FALLOUT_RATIO = 0.5"

text \<open>The body of the second pair of loops: the smoothed normal of \<open>(x, z)\<close> from the
  rough normals \<open>normals2\<close>.\<close>

definition smooth_normal :: "Terrain \<Rightarrow> Vec3f list list \<Rightarrow> int \<Rightarrow> int \<Rightarrow> Vec3f" where
  "smooth_normal t normals2 x z =
     (let sum = normals2 ! nat z ! nat x;
          sum = (if x > 0
                 then Vec3f_add sum (Vec3f_scale (normals2 ! nat z ! nat (x - 1)) FALLOUT_RATIO)
                 else sum);
          sum = (if x < w t - 1
                 then Vec3f_add sum (Vec3f_scale (normals2 ! nat z ! nat (x + 1)) FALLOUT_RATIO)
                 else sum);
          sum = (if z > 0
                 then Vec3f_add sum (Vec3f_scale (normals2 ! nat (z - 1) ! nat x) FALLOUT_RATIO)
                 else sum);
          sum = (if z < l t - 1
                 then Vec3f_add sum (Vec3f_scale (normals2 ! nat (z + 1) ! nat x) FALLOUT_RATIO)
                 else sum);
          sum = (if Vec3f_magnitude sum = 0 then Vec3f 0 1 0 else sum)
      in sum)"

text \<open>\<^verbatim>\<open>//Compute the rough version of the normals\<close>: the local grid
  \<^verbatim>\<open>normals2\<close> after the first pair of loops. It is allocated with the terrain's own
  dimensions, which the constructor's allocations have accepted, and starts as
  default-constructed vectors.\<close>

definition rough_normals :: "Vec3f \<Rightarrow> Terrain \<Rightarrow> Vec3f list list" where
  "rough_normals dv t =
     (let normals2 = replicate (nat (l t)) (replicate (nat (w t)) dv)
      in for_loop 0 (l t) (\<lambda>z.
           for_loop 0 (w t) (\<lambda>x n2.
             n2[nat z := (n2 ! nat z)[nat x := rough_normal t dv x z]]))
           normals2)"

text \<open>\<^verbatim>\<open>//Smooth out the normals\<close>: the member \<^verbatim>\<open>normals\<close> after the second pair
  of loops.\<close>

definition smooth_normals :: "Terrain \<Rightarrow> Vec3f list list \<Rightarrow> Vec3f list list" where
  "smooth_normals t normals2 =
     for_loop 0 (l t) (\<lambda>z.
       for_loop 0 (w t) (\<lambda>x ns.
         ns[nat z := (ns ! nat z)[nat x := smooth_normal t normals2 x z]]))
       (normals t)"

text \<open>\<^verbatim>\<open>void computeNormals()\<close>\<close>

definition computeNormals :: "Vec3f \<Rightarrow> Terrain \<Rightarrow> Terrain" where
  "computeNormals dv t =
     (if computedNormals t then t
      else
        let normals2 = rough_normals dv t;
            normals' = smooth_normals t normals2
        in t\<lparr> normals := normals', computedNormals := True \<rparr>)"

text \<open>\<^verbatim>\<open>Vec3f getNormal(int x, int z)\<close>: the normal read, and the terrain, whose
  normals the call may have recomputed.\<close>

definition getNormal :: "Vec3f \<Rightarrow> Terrain \<Rightarrow> int \<Rightarrow> int \<Rightarrow> error + (Vec3f \<times> Terrain)" where
  "getNormal dv t x z =
     (let t' = (if \<not> computedNormals t then computeNormals dv t else t)
      in if in_bounds t' x z then Inr (normals t' ! nat z ! nat x, t')
         else Inl UndefinedBehaviour)"

section \<open>loadTerrain\<close>

text \<open>The decoded image: \<^verbatim>\<open>imageloader.h\<close> is not among the sources; these are the
  three members that \<^verbatim>\<open>loadTerrain\<close> reads. \<^verbatim>\<open>pixels\<close> is a \<^verbatim>\<open>char*\<close>,
  read through a cast to \<^verbatim>\<open>unsigned char\<close>.\<close>

record Image =
  pixels :: "8 word list"
  width :: int
  height :: int

text \<open>The range of a 32-bit \<^verbatim>\<open>int\<close>. An arithmetic result outside it is a signed
  overflow, which is undefined behaviour.\<close>

definition INT_MAX :: int where
  "INT_MAX = 2147483647"

definition INT_MIN :: int where
  "INT_MIN = - 2147483648"

definition checked_int :: "int \<Rightarrow> error + int" where
  "checked_int v = (if INT_MIN \<le> v \<and> v \<le> INT_MAX then Inr v else Inl UndefinedBehaviour)"

text \<open>\<^verbatim>\<open>3 * (y * image->width + x)\<close>, computed in \<^verbatim>\<open>int\<close>: the product, the sum and
  the product by 3, each of which may overflow.\<close>

definition pixel_index :: "Image \<Rightarrow> int \<Rightarrow> int \<Rightarrow> error + int" where
  "pixel_index img x y =
     (case checked_int (y * width img) of
        Inl e \<Rightarrow> Inl e
      | Inr a \<Rightarrow>
          (case checked_int (a + x) of
             Inl e \<Rightarrow> Inl e
           | Inr b \<Rightarrow> checked_int (3 * b)))"

text \<open>\<^verbatim>\<open>image->pixels[i]\<close>\<close>

definition pixel_at :: "Image \<Rightarrow> int \<Rightarrow> error + 8 word" where
  "pixel_at img i =
     (if 0 \<le> i \<and> nat i < length (pixels img) then Inr (pixels img ! nat i)
      else Inl UndefinedBehaviour)"

text \<open>\<^verbatim>\<open>(unsigned char)image->pixels[3 * (y * image->width + x)]\<close>: the byte that
  \<^verbatim>\<open>loadTerrain\<close> reads for the pixel \<open>(x, y)\<close>, the first of the pixel's three bytes.\<close>

definition sample :: "Image \<Rightarrow> int \<Rightarrow> int \<Rightarrow> error + 8 word" where
  "sample img x y =
     (case pixel_index img x y of Inl e \<Rightarrow> Inl e | Inr i \<Rightarrow> pixel_at img i)"

text \<open>The body of the loops of \<^verbatim>\<open>loadTerrain\<close> at the pixel \<open>(x, y)\<close>.\<close>

definition load_pixel :: "Image \<Rightarrow> real \<Rightarrow> int \<Rightarrow> int \<Rightarrow> error + Terrain \<Rightarrow> error + Terrain" where
  "load_pixel img amplitude y x r =
     (case r of
        Inl e \<Rightarrow> Inl e
      | Inr t \<Rightarrow>
          (case sample img x y of
             Inl e \<Rightarrow> Inl e
           | Inr color \<Rightarrow>
               (let h = amplitude * ((real (unat color) / 255) - 0.5)
                in setHeight t x y h)))"

text \<open>\<^verbatim>\<open>Terrain* loadTerrain(const char* filename, float height)\<close>, from the image
  that \<^verbatim>\<open>loadBMP(filename)\<close> has decoded. The source's parameter \<^verbatim>\<open>height\<close> is
  \<open>amplitude\<close> here.\<close>

definition loadTerrain :: "Image \<Rightarrow> real \<Rightarrow> (nat \<Rightarrow> nat \<Rightarrow> real) \<Rightarrow> Vec3f \<Rightarrow> error + Terrain" where
  "loadTerrain img amplitude mem dv =
     (case new_Terrain (width img) (height img) mem dv of
        Inl e \<Rightarrow> Inl e
      | Inr t0 \<Rightarrow>
          (case for_loop 0 (height img) (\<lambda>y.
                  for_loop 0 (width img) (\<lambda>x. load_pixel img amplitude y x))
                  (Inr t0) of
             Inl e \<Rightarrow> Inl e
           | Inr t \<Rightarrow> Inr (computeNormals dv t)))"

section \<open>The game's global variables and callbacks\<close>

text \<open>The global variables that the callbacks below read and write (\<^verbatim>\<open>_angle\<close> is
  \<open>angle\<close>, \<^verbatim>\<open>acc\<close> is \<open>acc_g\<close>). The terrain pointer and \<^verbatim>\<open>rot\<close> belong to
  the rendering and are left out.\<close>

record Game =
  angle :: real
  theta :: real
  yax :: real
  xax :: real
  zax :: real
  fi :: real
  xpos :: real
  zpos :: real
  xvel :: real
  zvel :: real
  acc_g :: real
  tarx :: real
  tarz :: real
  cam :: int
  savy :: real
  score :: int

text \<open>The initialisers of the globals; \<open>r\<close> is what \<^verbatim>\<open>rand()\<close> returns for
  \<^verbatim>\<open>tarz\<close>.\<close>

definition startup :: "nat \<Rightarrow> Game" where
  "startup r =
     \<lparr> angle = - 140, theta = 350, yax = - 3, xax = 6, zax = 6, fi = 0,
       xpos = 8, zpos = 8, xvel = 0, zvel = 0, acc_g = 0, tarx = 55,
       tarz = real (r mod 30 + 15), cam = 1, savy = 0, score = 30 \<rparr>"

text \<open>\<^verbatim>\<open>void handleKeypress(unsigned char key, int x, int y)\<close>; \<open>None\<close> is
  \<^verbatim>\<open>exit(0)\<close>. The case \<^verbatim>\<open>'0'\<close> only calls the graphics library.\<close>

definition handleKeypress :: "char \<Rightarrow> Game \<Rightarrow> Game option" where
  "handleKeypress key g =
     (if key = CHR 0x1B then None
      else if key = CHR 0x20 then Some (g\<lparr> theta := theta g + 10 \<rparr>)
      else if key = CHR ''w'' then Some (g\<lparr> zax := zax g + 1 \<rparr>)
      else if key = CHR ''s'' then Some (g\<lparr> zax := zax g - 1 \<rparr>)
      else if key = CHR ''a'' then Some (g\<lparr> xax := xax g + 1 \<rparr>)
      else if key = CHR ''d'' then Some (g\<lparr> xax := xax g - 1 \<rparr>)
      else if key = CHR ''c'' then Some (g\<lparr> angle := angle g + 10 \<rparr>)
      else if key = CHR ''v'' then Some (g\<lparr> angle := angle g - 10 \<rparr>)
      else if key = CHR ''z'' then Some (g\<lparr> yax := yax g + 1 \<rparr>)
      else if key = CHR ''k'' then Some (g\<lparr> zpos := zpos g + 1 \<rparr>)
      else if key = CHR ''h'' then Some (g\<lparr> zpos := zpos g - 1 \<rparr>)
      else if key = CHR ''j'' then Some (g\<lparr> xpos := xpos g - 1 \<rparr>)
      else if key = CHR ''u'' then Some (g\<lparr> xpos := xpos g + 1 \<rparr>)
      else if key = CHR ''x'' then Some (g\<lparr> yax := yax g - 1 \<rparr>)
      else if key = CHR ''l'' then
        Some (g\<lparr> xvel := acc_g g * cos (fi g), zvel := acc_g g * sin (fi g),
                 acc_g := 0, fi := 0 \<rparr>)
      else if key = CHR ''0'' then Some g
      else if key = CHR ''1'' then
        Some (g\<lparr> angle := - 140, theta := 350, yax := - 3, xax := 6, zax := 6, cam := 1 \<rparr>)
      else if key = CHR ''2'' then
        Some (g\<lparr> xax := - 1 * xpos g / 5, zax := - 1 * zpos g / 5, yax := savy g / 5,
                 theta := 370, cam := 2 \<rparr>)
      else if key = CHR ''3'' then
        Some (g\<lparr> xax := 4, yax := - 7, zax := 4, theta := 310, angle := - 140, cam := 3 \<rparr>)
      else if key = CHR ''5'' then
        Some (g\<lparr> xax := - 1 * xpos g / 5 - 2, zax := - 1 * zpos g / 5 - 2,
                 yax := savy g / 5 - 5, cam := 5, theta := 310, angle := - 140 \<rparr>)
      else Some g)"

text \<open>The key codes of \<^verbatim>\<open>GL/glut.h\<close>.\<close>

definition GLUT_KEY_LEFT :: int where "GLUT_KEY_LEFT = 100"
definition GLUT_KEY_UP :: int where "GLUT_KEY_UP = 101"
definition GLUT_KEY_RIGHT :: int where "GLUT_KEY_RIGHT = 102"
definition GLUT_KEY_DOWN :: int where "GLUT_KEY_DOWN = 103"

text \<open>\<^verbatim>\<open>void handleKeypress2(int key, int x, int y)\<close>\<close>

definition handleKeypress2 :: "int \<Rightarrow> Game \<Rightarrow> Game" where
  "handleKeypress2 key g =
     (if key = GLUT_KEY_UP then g\<lparr> acc_g := acc_g g + 0.3 \<rparr>
      else if key = GLUT_KEY_DOWN then g\<lparr> acc_g := acc_g g - 0.3 \<rparr>
      else if key = GLUT_KEY_LEFT then g\<lparr> fi := fi g - 0.05 \<rparr>
      else if key = GLUT_KEY_RIGHT then g\<lparr> fi := fi g + 0.05 \<rparr>
      else g)"

text \<open>\<^verbatim>\<open>void update(int value)\<close>, the timer callback.\<close>

definition update :: "Game \<Rightarrow> Game" where
  "update g =
     (let g = g\<lparr> xpos := xpos g + xvel g \<rparr>;
          g = g\<lparr> zpos := zpos g + zvel g \<rparr>;
          g = (if xvel g > - 0.08 \<and> xvel g < 0.08 then g\<lparr> xvel := 0 \<rparr> else g);
          g = (if zvel g > - 0.08 \<and> zvel g < 0.08 then g\<lparr> zvel := 0 \<rparr> else g);
          g = (if xvel g > 0 then g\<lparr> xvel := xvel g - 0.05 \<rparr>
               else if xvel g < 0 then g\<lparr> xvel := xvel g + 0.05 \<rparr> else g);
          g = (if zvel g > 0 then g\<lparr> zvel := zvel g - 0.05 \<rparr>
               else if zvel g < 0 then g\<lparr> zvel := zvel g + 0.05 \<rparr> else g);
          g = (if angle g > 360 then g\<lparr> angle := angle g - 360 \<rparr> else g)
      in g)"

text \<open>The condition of \<^verbatim>\<open>detect\<close>.\<close>

definition near_target :: "Game \<Rightarrow> bool" where
  "near_target g \<longleftrightarrow>
     sqrt ((xpos g - tarx g) * (xpos g - tarx g)
           + (zpos g - tarz g - 22) * (zpos g - tarz g - 22)) < 7.5"

text \<open>\<^verbatim>\<open>void detect()\<close>; \<open>r\<close> is what \<^verbatim>\<open>rand()\<close> returns. \<^verbatim>\<open>score\<close> is a
  32-bit \<^verbatim>\<open>int\<close>: incrementing it at \<open>INT_MAX\<close> is undefined behaviour.\<close>

definition detect :: "nat \<Rightarrow> Game \<Rightarrow> error + Game" where
  "detect r g =
     (if near_target g then
        (if score g = INT_MAX then Inl UndefinedBehaviour
         else Inr (g\<lparr> score := score g + 1, angle := - 140, theta := 350, yax := - 3,
                       xax := 6, zax := 6, fi := 0, xpos := 8, zpos := 8, xvel := 0,
                       zvel := 0, acc_g := 0, tarx := 55, tarz := real (r mod 30 + 15),
                       cam := 1, savy := 0 \<rparr>))
      else Inr g)"

text \<open>One step of the game: a timer tick, a proximity check, a key or a special key.
  \<open>None\<close>: the process has exited, or the step has no defined successor.\<close>

datatype event = Timer | Detect nat | Key char | Special int

fun step :: "event \<Rightarrow> Game \<Rightarrow> Game option" where
  "step Timer g = Some (update g)"
| "step (Detect r) g = (case detect r g of Inl e \<Rightarrow> None | Inr g' \<Rightarrow> Some g')"
| "step (Key k) g = handleKeypress k g"
| "step (Special k) g = Some (handleKeypress2 k g)"

fun run :: "event list \<Rightarrow> Game \<Rightarrow> Game option" where
  "run [] g = Some g"
| "run (e # es) g = (case step e g of None \<Rightarrow> None | Some g' \<Rightarrow> run es g')"

section \<open>Vocabulary of the properties\<close>

text \<open>The shape that the constructor establishes and every method keeps: \<open>l\<close> rows of
  \<open>w\<close> cells in both grids.\<close>

definition Terrain_ok :: "Terrain \<Rightarrow> bool" where
  "Terrain_ok t \<longleftrightarrow>
     length (hs t) = nat (l t) \<and> (\<forall>row\<in>set (hs t). length row = nat (w t)) \<and>
     length (normals t) = nat (l t) \<and> (\<forall>row\<in>set (normals t). length row = nat (w t))"

text \<open>The height field of a terrain as the function \<open>h[z][x]\<close>.\<close>

definition height_fun :: "Terrain \<Rightarrow> int \<Rightarrow> int \<Rightarrow> real" where
  "height_fun t z x = hs t ! nat z ! nat x"

subsection \<open>The two-pass algorithm in the specification's words\<close>

definition Vec3f_sum :: "Vec3f list \<Rightarrow> Vec3f" where
  "Vec3f_sum vs = foldl Vec3f_add (Vec3f 0 0 0) vs"

definition spec_out :: "(int \<Rightarrow> int \<Rightarrow> real) \<Rightarrow> int \<Rightarrow> int \<Rightarrow> Vec3f" where
  "spec_out h x z = Vec3f 0 (h (z - 1) x - h z x) (- 1)"

definition spec_in :: "(int \<Rightarrow> int \<Rightarrow> real) \<Rightarrow> int \<Rightarrow> int \<Rightarrow> Vec3f" where
  "spec_in h x z = Vec3f 0 (h (z + 1) x - h z x) 1"

definition spec_left :: "(int \<Rightarrow> int \<Rightarrow> real) \<Rightarrow> int \<Rightarrow> int \<Rightarrow> Vec3f" where
  "spec_left h x z = Vec3f (- 1) (h z (x - 1) - h z x) 0"

definition spec_right :: "(int \<Rightarrow> int \<Rightarrow> real) \<Rightarrow> int \<Rightarrow> int \<Rightarrow> Vec3f" where
  "spec_right h x z = Vec3f 1 (h z (x + 1) - h z x) 0"

text \<open>Pass 1: the sum of the unit-normalised cross products of the eligible pairs, in the
  listed order; the zero vector when no pair is eligible.\<close>

definition spec_raw_normal :: "int \<Rightarrow> int \<Rightarrow> (int \<Rightarrow> int \<Rightarrow> real) \<Rightarrow> int \<Rightarrow> int \<Rightarrow> Vec3f" where
  "spec_raw_normal W L h x z =
     Vec3f_sum
       ((if x > 0 \<and> z > 0
         then [Vec3f_normalize (Vec3f_cross (spec_out h x z) (spec_left h x z))] else []) @
        (if x > 0 \<and> z < L - 1
         then [Vec3f_normalize (Vec3f_cross (spec_left h x z) (spec_in h x z))] else []) @
        (if x < W - 1 \<and> z < L - 1
         then [Vec3f_normalize (Vec3f_cross (spec_in h x z) (spec_right h x z))] else []) @
        (if x < W - 1 \<and> z > 0
         then [Vec3f_normalize (Vec3f_cross (spec_right h x z) (spec_out h x z))] else []))"

text \<open>Pass 2: the raw normal plus 0.5 times the raw normal of each 4-neighbour that is in
  bounds; \<open>(0, 1, 0)\<close> when that sum has zero magnitude; no normalisation.\<close>

definition spec_normal :: "int \<Rightarrow> int \<Rightarrow> (int \<Rightarrow> int \<Rightarrow> real) \<Rightarrow> int \<Rightarrow> int \<Rightarrow> Vec3f" where
  "spec_normal W L h x z =
     (let s = Vec3f_sum
                ([spec_raw_normal W L h x z] @
                 (if 0 \<le> x - 1 then [Vec3f_scale (spec_raw_normal W L h (x - 1) z) 0.5] else []) @
                 (if x + 1 < W then [Vec3f_scale (spec_raw_normal W L h (x + 1) z) 0.5] else []) @
                 (if 0 \<le> z - 1 then [Vec3f_scale (spec_raw_normal W L h x (z - 1)) 0.5] else []) @
                 (if z + 1 < L then [Vec3f_scale (spec_raw_normal W L h x (z + 1)) 0.5] else []))
      in if Vec3f_magnitude s = 0 then Vec3f 0 1 0 else s)"

subsection \<open>Concrete inputs\<close>

text \<open>Two possible contents of freshly allocated storage.\<close>

definition zero_mem :: "nat \<Rightarrow> nat \<Rightarrow> real" where
  "zero_mem i j = 0"

definition junk_mem :: "nat \<Rightarrow> nat \<Rightarrow> real" where
  "junk_mem i j = 7"

text \<open>\<^verbatim>\<open>Terrain t(w2, l2); t.getHeight(x, z)\<close>: a query on a fresh terrain.\<close>

definition fresh_height ::
  "int \<Rightarrow> int \<Rightarrow> (nat \<Rightarrow> nat \<Rightarrow> real) \<Rightarrow> Vec3f \<Rightarrow> int \<Rightarrow> int \<Rightarrow> error + real" where
  "fresh_height w2 l2 mem dv x z =
     (case new_Terrain w2 l2 mem dv of Inl e \<Rightarrow> Inl e | Inr t \<Rightarrow> getHeight t x z)"

text \<open>A 2\<times>2 terrain with stale normals.\<close>

definition example_terrain :: Terrain where
  "example_terrain =
     \<lparr> w = 2, l = 2, hs = [[0, 1], [2, 3]],
       normals = [[Vec3f 0 0 0, Vec3f 0 0 0], [Vec3f 0 0 0, Vec3f 0 0 0]],
       computedNormals = False \<rparr>"

subsection \<open>Flat height fields\<close>

definition flat :: "Terrain \<Rightarrow> real \<Rightarrow> bool" where
  "flat t c \<longleftrightarrow> (\<forall>row\<in>set (hs t). \<forall>y\<in>set row. y = c)"

text \<open>An interior cell: all four neighbours exist.\<close>

definition interior :: "Terrain \<Rightarrow> int \<Rightarrow> int \<Rightarrow> bool" where
  "interior t x z \<longleftrightarrow> 0 < x \<and> x < w t - 1 \<and> 0 < z \<and> z < l t - 1"

text \<open>The number of edge-vector pairs of the cell \<open>(x, z)\<close> that pass 1 adds up.\<close>

definition eligible_pairs :: "int \<Rightarrow> int \<Rightarrow> int \<Rightarrow> int \<Rightarrow> nat" where
  "eligible_pairs W L x z =
     (if x > 0 \<and> z > 0 then 1 else 0) + (if x > 0 \<and> z < L - 1 then 1 else 0) +
     (if x < W - 1 \<and> z < L - 1 then 1 else 0) + (if x < W - 1 \<and> z > 0 then 1 else 0)"

definition flat_normal_y :: "int \<Rightarrow> int \<Rightarrow> int \<Rightarrow> int \<Rightarrow> real" where
  "flat_normal_y W L x z =
     real (eligible_pairs W L x z) +
     (real (eligible_pairs W L (x - 1) z) + real (eligible_pairs W L (x + 1) z) +
      real (eligible_pairs W L x (z - 1)) + real (eligible_pairs W L x (z + 1))) / 2"

text \<open>The flat 3\<times>3 terrain, all heights 0, normals stale.\<close>

definition flat3 :: Terrain where
  "flat3 =
     \<lparr> w = 3, l = 3, hs = [[0, 0, 0], [0, 0, 0], [0, 0, 0]],
       normals = [[Vec3f 0 0 0, Vec3f 0 0 0, Vec3f 0 0 0],
                  [Vec3f 0 0 0, Vec3f 0 0 0, Vec3f 0 0 0],
                  [Vec3f 0 0 0, Vec3f 0 0 0, Vec3f 0 0 0]],
       computedNormals = False \<rparr>"

subsection \<open>Loading\<close>

text \<open>Modelled from the spec: the decoder \<^verbatim>\<open>loadBMP\<close> (\<^verbatim>\<open>imageloader.h\<close>) is not among
  the sources. A decoded image has a width, a height (both \<^verbatim>\<open>int\<close>) and a flat buffer of
  at least 3 bytes per pixel.\<close>

definition decoded :: "Image \<Rightarrow> bool" where
  "decoded img \<longleftrightarrow>
     0 \<le> width img \<and> width img \<le> INT_MAX \<and> 0 \<le> height img \<and> height img \<le> INT_MAX \<and>
     3 * (width img * height img) \<le> int (length (pixels img))"

text \<open>The images whose largest pixel index, \<open>3 \<times> (width \<times> height \<minus> 1)\<close>, is an
  \<^verbatim>\<open>int\<close>: at most 715827883 pixels.\<close>

definition index_fits :: "Image \<Rightarrow> bool" where
  "index_fits img \<longleftrightarrow> 3 * (width img * height img - 1) \<le> INT_MAX"

text \<open>\<^verbatim>\<open>loadTerrain(...)->getHeight(x, y)\<close>\<close>

definition loaded_height ::
  "Image \<Rightarrow> real \<Rightarrow> (nat \<Rightarrow> nat \<Rightarrow> real) \<Rightarrow> Vec3f \<Rightarrow> int \<Rightarrow> int \<Rightarrow> error + real" where
  "loaded_height img amplitude mem dv x y =
     (case loadTerrain img amplitude mem dv of Inl e \<Rightarrow> Inl e | Inr t \<Rightarrow> getHeight t x y)"

text \<open>The heights of the loaded terrain in row-major pixel order.\<close>

definition row_major_heights ::
  "Image \<Rightarrow> real \<Rightarrow> (nat \<Rightarrow> nat \<Rightarrow> real) \<Rightarrow> Vec3f \<Rightarrow> (error + real) list" where
  "row_major_heights img amplitude mem dv =
     concat (map (\<lambda>y. map (\<lambda>x. loaded_height img amplitude mem dv (int x) (int y))
                          [0..<nat (width img)]) [0..<nat (height img)])"

text \<open>"Approximately": every height is defined and within \<open>eps\<close> of the listed value.\<close>

definition approx_heights :: "real \<Rightarrow> (error + real) list \<Rightarrow> real list \<Rightarrow> bool" where
  "approx_heights eps rs vs \<longleftrightarrow>
     list_all2 (\<lambda>r v. case r of Inl e \<Rightarrow> False | Inr h \<Rightarrow> \<bar>h - v\<bar> \<le> eps) rs vs"

text \<open>The 2\<times>2 image with the channel bytes 0, 128, 255, 64 (grey pixels), and one with the
  same first channel and other bytes in the two remaining channels.\<close>

definition example_image :: Image where
  "example_image =
     \<lparr> pixels = [0, 0, 0, 128, 128, 128, 255, 255, 255, 64, 64, 64], width = 2, height = 2 \<rparr>"

definition example_image2 :: Image where
  "example_image2 =
     \<lparr> pixels = [0, 17, 34, 128, 1, 2, 255, 0, 99, 64, 200, 3], width = 2, height = 2 \<rparr>"

text \<open>The height that the loader computes for the byte \<open>c\<close>.\<close>

definition byte_height :: "real \<Rightarrow> 8 word \<Rightarrow> real" where
  "byte_height amplitude c = amplitude * (real (unat c) / 255 - 0.5)"

text \<open>The height grid and the terrain that the loader produces from a decoded image.\<close>

definition image_heights :: "Image \<Rightarrow> real \<Rightarrow> real list list" where
  "image_heights img amplitude =
     map (\<lambda>r. map (\<lambda>c. byte_height amplitude
                          (pixels img ! nat (3 * (int r * width img + int c))))
                  [0..<nat (width img)]) [0..<nat (height img)]"

definition loaded_terrain :: "Image \<Rightarrow> real \<Rightarrow> Terrain" where
  "loaded_terrain img amplitude =
     (let t = \<lparr> w = width img, l = height img, hs = image_heights img amplitude,
                 normals = [], computedNormals = False \<rparr>
      in t\<lparr> normals := map (\<lambda>r. map (\<lambda>c. spec_normal (w t) (l t) (height_fun t) (int c) (int r))
                                    [0..<nat (w t)]) [0..<nat (l t)],
            computedNormals := True \<rparr>)"

text \<open>Two decoded images of 26755\<times>26755 pixels: the largest index,
  \<open>3 \<times> (26754 \<times> 26755 + 26754) = 2147490072\<close>, is not an \<^verbatim>\<open>int\<close>. They differ in the
  last byte, the third channel of the last pixel.\<close>

definition big_image :: Image where
  "big_image = \<lparr> pixels = replicate 2147490075 0, width = 26755, height = 26755 \<rparr>"

definition big_image2 :: Image where
  "big_image2 = \<lparr> pixels = replicate 2147490074 0 @ [1], width = 26755, height = 26755 \<rparr>"

text \<open>The two buffers agree at every index \<open>3 \<times> (y \<times> width + x)\<close>.\<close>

definition first_channel_agrees :: "Image \<Rightarrow> Image \<Rightarrow> bool" where
  "first_channel_agrees img1 img2 \<longleftrightarrow>
     (\<forall>x y. 0 \<le> x \<and> x < width img1 \<and> 0 \<le> y \<and> y < height img1 \<longrightarrow>
        pixels img1 ! nat (3 * (y * width img1 + x))
          = pixels img2 ! nat (3 * (y * width img1 + x)))"

subsection \<open>A game state on the target\<close>

text \<open>The startup state moved onto the target: \<open>tarx = 55\<close>, \<open>tarz = 15\<close>, and the
  distance is measured to \<open>(tarx, tarz + 22)\<close>.\<close>

definition target_reached :: Game where
  "target_reached = (startup 0)\<lparr> xpos := 55, zpos := 37 \<rparr>"

text \<open>The same state with the score at the largest \<^verbatim>\<open>int\<close>.\<close>

definition score_at_max :: Game where
  "score_at_max = target_reached\<lparr> score := INT_MAX \<rparr>"

section \<open>Loops: unfolding, invariants, congruence\<close>

lemma for_loop_stop: "n \<le> i \<Longrightarrow> for_loop i n body s = s"
  by (simp add: for_loop.simps)

lemma for_loop_step: "i < n \<Longrightarrow> for_loop i n body s = for_loop (i + 1) n body (body i s)"
  by (subst for_loop.simps) simp

text \<open>The invariant rule: \<open>P j s\<close> says that \<open>s\<close> is the state before iteration \<open>j\<close>.\<close>

lemma for_loop_rule:
  assumes "i \<le> n" and "P i s"
    and "\<And>j s. i \<le> j \<Longrightarrow> j < n \<Longrightarrow> P j s \<Longrightarrow> P (j + 1) (body j s)"
  shows "P n (for_loop i n body s)"
  using assms
proof (induction i n body s rule: for_loop.induct)
  case (1 i n body s)
  show ?case
  proof (cases "i < n")
    case True
    have "P (i + 1) (body i s)" using 1(4)[of i s] 1(3) True by simp
    moreover have "\<And>j s. i + 1 \<le> j \<Longrightarrow> j < n \<Longrightarrow> P j s \<Longrightarrow> P (j + 1) (body j s)"
      using 1(4) by simp
    ultimately have "P n (for_loop (i + 1) n body (body i s))"
      using 1(1)[OF True] True by simp
    then show ?thesis using True by (simp add: for_loop_step)
  next
    case False
    then have "i = n" using 1(2) by simp
    then show ?thesis using 1(3) by (simp add: for_loop_stop)
  qed
qed

lemma for_loop_cong:
  assumes "\<And>j. i \<le> j \<Longrightarrow> j < n \<Longrightarrow> body1 j = body2 j"
  shows "for_loop i n body1 s = for_loop i n body2 s"
  using assms
proof (induction i n body1 s rule: for_loop.induct)
  case (1 i n body1 s)
  show ?case
  proof (cases "i < n")
    case True
    have "for_loop (i + 1) n body1 (body1 i s) = for_loop (i + 1) n body2 (body1 i s)"
      using 1(1)[OF True] 1(2) by simp
    moreover have "body1 i s = body2 i s" using 1(2)[of i] True by simp
    ultimately show ?thesis using True by (simp add: for_loop_step)
  next
    case False
    then show ?thesis by (simp add: for_loop_stop)
  qed
qed

text \<open>A loop over \<open>x\<close> that writes \<open>f x z\<close> into cell \<open>x\<close> of row \<open>z\<close> overwrites that
  row and nothing else.\<close>

lemma upd_row_loop:
  assumes z: "0 \<le> z" "nat z < length g" and len: "length (g ! nat z) = nat W"
  shows "for_loop 0 W (\<lambda>x g. g[nat z := (g ! nat z)[nat x := f x z]]) g
         = g[nat z := map (\<lambda>c. f (int c) z) [0..<nat W]]"
proof (cases "0 \<le> W")
  case False
  then have "g ! nat z = []" using len by simp
  then have "g[nat z := map (\<lambda>c. f (int c) z) [0..<nat W]] = g"
    using False z by (simp add: list_update_same_conv)
  then show ?thesis using False by (simp add: for_loop_stop)
next
  case True
  let ?P = "\<lambda>j g'. g' = g[nat z := map (\<lambda>c. if int c < j then f (int c) z else g ! nat z ! c) [0..<nat W]]"
  have "map (\<lambda>c. g ! nat z ! c) [0..<nat W] = g ! nat z"
    using len by (metis map_nth)
  then have P0: "?P 0 g" using z by (simp add: list_update_same_conv)
  have step: "?P (j + 1) (g'[nat z := (g' ! nat z)[nat j := f j z]])"
    if "0 \<le> j" "j < W" "?P j g'" for j g'
  proof -
    have "(map (\<lambda>c. if int c < j then f (int c) z else g ! nat z ! c) [0..<nat W])[nat j := f j z]
        = map (\<lambda>c. if int c < j + 1 then f (int c) z else g ! nat z ! c) [0..<nat W]"
      using that(1,2) by (intro nth_equalityI) (auto simp: nth_list_update)
    then show ?thesis using that(3) z by simp
  qed
  have "?P W (for_loop 0 W (\<lambda>x g. g[nat z := (g ! nat z)[nat x := f x z]]) g)"
    by (rule for_loop_rule[where P = ?P, OF True P0]) (use step in blast)
  moreover have "map (\<lambda>c. if int c < W then f (int c) z else g ! nat z ! c) [0..<nat W]
      = map (\<lambda>c. f (int c) z) [0..<nat W]" by auto
  ultimately show ?thesis by simp
qed

text \<open>The nested loops over \<open>z\<close> and \<open>x\<close> overwrite the whole grid.\<close>

lemma fill_loop:
  assumes len: "length g = nat L" and rows: "\<forall>r\<in>set g. length r = nat W"
  shows "for_loop 0 L (\<lambda>z. for_loop 0 W (\<lambda>x g. g[nat z := (g ! nat z)[nat x := f x z]])) g
         = map (\<lambda>r. map (\<lambda>c. f (int c) (int r)) [0..<nat W]) [0..<nat L]"
proof (cases "0 \<le> L")
  case False
  then show ?thesis using len by (simp add: for_loop_stop)
next
  case True
  let ?row = "\<lambda>r. map (\<lambda>c. f (int c) (int r)) [0..<nat W]"
  let ?P = "\<lambda>k g'. g' = map (\<lambda>r. if int r < k then ?row r else g ! r) [0..<nat L]"
  have P0: "?P 0 g" using len map_nth[of g] by simp
  have step: "?P (k + 1) (for_loop 0 W (\<lambda>x g. g[nat k := (g ! nat k)[nat x := f x k]]) g')"
    if "0 \<le> k" "k < L" "?P k g'" for k g'
  proof -
    have k: "nat k < length g'" using that by simp
    have "g' ! nat k = g ! nat k" using that by simp
    moreover have "g ! nat k \<in> set g" using that len by simp
    ultimately have "length (g' ! nat k) = nat W" using rows by simp
    then have "for_loop 0 W (\<lambda>x g. g[nat k := (g ! nat k)[nat x := f x k]]) g'
       = g'[nat k := map (\<lambda>c. f (int c) k) [0..<nat W]]"
      using upd_row_loop[OF that(1) k] by simp
    also have "\<dots> = map (\<lambda>r. if int r < k + 1 then ?row r else g ! r) [0..<nat L]"
      using that by (intro nth_equalityI) (auto simp: nth_list_update)
    finally show ?thesis .
  qed
  have "?P L (for_loop 0 L (\<lambda>z. for_loop 0 W (\<lambda>x g. g[nat z := (g ! nat z)[nat x := f x z]])) g)"
    by (rule for_loop_rule[where P = ?P, OF True P0]) (use step in blast)
  moreover have "map (\<lambda>r. if int r < L then ?row r else g ! r) [0..<nat L] = map ?row [0..<nat L]"
    by auto
  ultimately show ?thesis by simp
qed

section \<open>Construction and the accessors\<close>

lemma new_rows_eq:
  "new_rows n w2 init =
     (if 0 < n \<and> w2 < 0 then Inl BadAlloc
      else Inr (map (\<lambda>i. map (init i) [0..<nat w2]) [0..<n]))"
  by (induction n) (auto simp: new_array_def)

lemma new_Terrain_eq:
  "new_Terrain w2 l2 mem dv =
     (if l2 < 0 \<or> (0 < l2 \<and> w2 < 0) then Inl BadAlloc
      else Inr \<lparr> w = w2, l = l2,
                 hs = map (\<lambda>i. map (mem i) [0..<nat w2]) [0..<nat l2],
                 normals = map (\<lambda>i. map (\<lambda>j. dv) [0..<nat w2]) [0..<nat l2],
                 computedNormals = False \<rparr>)"
  by (simp add: new_Terrain_def new_rows_eq)

lemma new_Terrain_ok:
  "new_Terrain w2 l2 mem dv = Inr t \<Longrightarrow>
     Terrain_ok t \<and> w t = w2 \<and> l t = l2 \<and> \<not> computedNormals t"
  by (auto simp: new_Terrain_eq Terrain_ok_def split: if_splits)

lemma computeNormals_dims: "w (computeNormals dv t) = w t \<and> l (computeNormals dv t) = l t"
  by (simp add: computeNormals_def Let_def)

lemma computeNormals_hs: "hs (computeNormals dv t) = hs t"
  by (simp add: computeNormals_def Let_def)

lemma in_bounds_computeNormals: "in_bounds (computeNormals dv t) x z = in_bounds t x z"
  by (simp add: in_bounds_def computeNormals_dims)

text \<open>
  Claim C4, as stated: on a freshly constructed terrain every in-bounds \<open>getHeight\<close>
  returns 0. It fails: the constructor allocates the rows with \<^verbatim>\<open>new float[w]\<close> and
  writes none of them, so a query returns what the storage holds, here 7.
\<close>

theorem fresh_height_not_zero:
  "fresh_height 2 2 junk_mem (Vec3f 0 0 0) 1 0 = Inr 7 \<and>
   fresh_height 2 2 junk_mem (Vec3f 0 0 0) 1 0 \<noteq> Inr 0"
  by (simp add: fresh_height_def new_Terrain_eq getHeight_def in_bounds_def junk_mem_def)

text \<open>
  Claim C4, amended: on a freshly constructed terrain, with no \<open>setHeight\<close> call yet, an
  in-bounds \<open>getHeight(x, z)\<close> returns the content of the newly allocated storage at that
  cell; the constructor does not initialise the heights, so the value is 0 only where the
  storage happens to hold 0.
\<close>

theorem fresh_height_is_storage:
  assumes "0 \<le> x" "x < w2" "0 \<le> z" "z < l2"
  shows "fresh_height w2 l2 mem dv x z = Inr (mem (nat z) (nat x))"
  using assms by (simp add: fresh_height_def new_Terrain_eq getHeight_def in_bounds_def)

theorem fresh_height_is_storage_witness:
  "(0::int) \<le> 1 \<and> (1::int) < 2 \<and> (0::int) \<le> 0 \<and> (0::int) < 2 \<and>
   fresh_height 2 2 zero_mem (Vec3f 0 0 0) 1 0 = Inr 0"
  using fresh_height_is_storage[of 1 2 0 2 zero_mem "Vec3f 0 0 0"] by (simp add: zero_mem_def)

text \<open>
  Claim C5, as stated: construction with a non-positive width or length fails with an
  InvalidDimension error and produces no terrain. It fails: \<^verbatim>\<open>Terrain(0, 0)\<close> checks
  nothing, allocates two empty arrays and returns an empty terrain.
\<close>

theorem new_Terrain_zero_succeeds:
  "new_Terrain 0 0 zero_mem (Vec3f 0 0 0) =
     Inr \<lparr> w = 0, l = 0, hs = [], normals = [], computedNormals = False \<rparr> \<and>
   new_Terrain 0 0 zero_mem (Vec3f 0 0 0) \<noteq> Inl InvalidDimension"
  by (simp add: new_Terrain_def)

text \<open>
  Claim C5, amended: the constructor validates nothing. It fails, with the exception that
  \<^verbatim>\<open>new[]\<close> throws for a negative array length and never with InvalidDimension,
  exactly when the length is negative, or the length is positive and the width negative.
  In every other case, among them width 0 and length 0, it produces a terrain with the
  given dimensions, \<open>l\<close> rows of \<open>w\<close> uninitialised heights and stale normals.
\<close>

theorem new_Terrain_outcome:
  "new_Terrain w2 l2 mem dv =
     (if l2 < 0 \<or> (0 < l2 \<and> w2 < 0) then Inl BadAlloc
      else Inr \<lparr> w = w2, l = l2,
                 hs = map (\<lambda>i. map (mem i) [0..<nat w2]) [0..<nat l2],
                 normals = map (\<lambda>i. map (\<lambda>j. dv) [0..<nat w2]) [0..<nat l2],
                 computedNormals = False \<rparr>)"
  by (rule new_Terrain_eq)

text \<open>
  Claim C6, as stated: a coordinate outside the grid makes \<open>setHeight\<close>, \<open>getHeight\<close>
  and \<open>getNormal\<close> fail fast with an OutOfRange error. It fails: the three methods index
  \<^verbatim>\<open>hs[z][x]\<close> and \<^verbatim>\<open>normals[z][x]\<close> with no check, so on the 2\<times>2 terrain the
  coordinate \<open>(2, 0)\<close> reads or writes outside the row.
\<close>

theorem out_of_range_unchecked:
  "getHeight example_terrain 2 0 = Inl UndefinedBehaviour \<and>
   getHeight example_terrain 2 0 \<noteq> Inl OutOfRange \<and>
   setHeight example_terrain 2 0 5 = Inl UndefinedBehaviour \<and>
   setHeight example_terrain 2 0 5 \<noteq> Inl OutOfRange \<and>
   getNormal (Vec3f 0 0 0) example_terrain 2 0 = Inl UndefinedBehaviour \<and>
   getNormal (Vec3f 0 0 0) example_terrain 2 0 \<noteq> Inl OutOfRange"
  by (simp add: getHeight_def setHeight_def getNormal_def Let_def computeNormals_dims
      in_bounds_def example_terrain_def)

text \<open>
  Claim C6, amended: \<open>setHeight\<close>, \<open>getHeight\<close> and \<open>getNormal\<close> check no bounds. For a
  coordinate inside \<open>[0,width) \<times> [0,length)\<close> they succeed; for a coordinate outside they
  index the raw arrays out of range, which is undefined behaviour; no call ever ends in an
  OutOfRange error.
\<close>

theorem accessors_check_no_bounds:
  "(in_bounds t x z \<longrightarrow>
      getHeight t x z = Inr (height_fun t z x) \<and>
      (\<exists>t'. setHeight t x z y = Inr t') \<and>
      (\<exists>n t'. getNormal dv t x z = Inr (n, t'))) \<and>
   (\<not> in_bounds t x z \<longrightarrow>
      getHeight t x z = Inl UndefinedBehaviour \<and>
      setHeight t x z y = Inl UndefinedBehaviour \<and>
      getNormal dv t x z = Inl UndefinedBehaviour) \<and>
   getHeight t x z \<noteq> Inl OutOfRange \<and>
   setHeight t x z y \<noteq> Inl OutOfRange \<and>
   getNormal dv t x z \<noteq> Inl OutOfRange"
  by (simp add: getHeight_def setHeight_def getNormal_def in_bounds_computeNormals
      height_fun_def Let_def)

theorem accessors_check_no_bounds_witness:
  "in_bounds example_terrain 1 1 \<and>
   getHeight example_terrain 1 1 = Inr 3 \<and>
   (\<exists>t'. setHeight example_terrain 1 1 5 = Inr t') \<and>
   (\<exists>n t'. getNormal (Vec3f 0 0 0) example_terrain 1 1 = Inr (n, t')) \<and>
   \<not> in_bounds example_terrain 2 0 \<and>
   getHeight example_terrain 2 0 = Inl UndefinedBehaviour \<and>
   setHeight example_terrain 2 0 5 = Inl UndefinedBehaviour \<and>
   getNormal (Vec3f 0 0 0) example_terrain 2 0 = Inl UndefinedBehaviour"
proof -
  have a: "in_bounds example_terrain 1 1" and b: "\<not> in_bounds example_terrain 2 0"
    by (simp_all add: in_bounds_def example_terrain_def)
  have c: "height_fun example_terrain 1 1 = 3"
    by (simp add: height_fun_def example_terrain_def)
  show ?thesis
    using accessors_check_no_bounds[of example_terrain 1 1 5 "Vec3f 0 0 0"]
      accessors_check_no_bounds[of example_terrain 2 0 5 "Vec3f 0 0 0"] a b c
    by simp
qed

section \<open>computeNormals computes the two-pass normal field\<close>

lemma Vec3f_add_zero: "Vec3f_add (Vec3f 0 0 0) v = v"
  by (cases v) (simp add: Vec3f_add_def)

text \<open>The cross products that pass 1 normalises have the component \<open>1\<close> along Y: their
  magnitude is positive, the division in \<open>normalize\<close> is never by zero, and each summand
  has unit length.\<close>

lemma edge_cross_magnitude_pos:
  "0 < Vec3f_magnitude (Vec3f_cross (spec_out h x z) (spec_left h x z))"
  "0 < Vec3f_magnitude (Vec3f_cross (spec_left h x z) (spec_in h x z))"
  "0 < Vec3f_magnitude (Vec3f_cross (spec_in h x z) (spec_right h x z))"
  "0 < Vec3f_magnitude (Vec3f_cross (spec_right h x z) (spec_out h x z))"
  by (simp_all add: Vec3f_magnitude_def Vec3f_cross_def spec_out_def spec_in_def
      spec_left_def spec_right_def add_nonneg_pos add_pos_nonneg)

lemma unit_normalize:
  "0 < Vec3f_magnitude a \<Longrightarrow> Vec3f_magnitude (Vec3f_normalize a) = 1"
proof -
  assume m: "0 < Vec3f_magnitude a"
  let ?m = "Vec3f_magnitude a"
  have sq: "v0 a * v0 a + v1 a * v1 a + v2 a * v2 a = ?m * ?m"
    unfolding Vec3f_magnitude_def
    by (simp add: add_nonneg_nonneg)
  have "(v0 a / ?m) * (v0 a / ?m) + (v1 a / ?m) * (v1 a / ?m) + (v2 a / ?m) * (v2 a / ?m)
      = (v0 a * v0 a + v1 a * v1 a + v2 a * v2 a) / (?m * ?m)"
    by (simp add: add_divide_distrib)
  also have "\<dots> = 1" using m sq by simp
  finally show ?thesis
    by (simp add: Vec3f_normalize_def Let_def Vec3f_magnitude_def[of "Vec3f _ _ _"])
qed

lemma rough_normal_spec:
  "rough_normal t dv x z = spec_raw_normal (w t) (l t) (height_fun t) x z"
  by (simp add: rough_normal_def spec_raw_normal_def Vec3f_sum_def Let_def height_fun_def
      spec_out_def spec_in_def spec_left_def spec_right_def Vec3f_add_zero)

lemma rough_normals_eq:
  "rough_normals dv t =
     map (\<lambda>r. map (\<lambda>c. spec_raw_normal (w t) (l t) (height_fun t) (int c) (int r))
                  [0..<nat (w t)]) [0..<nat (l t)]"
  unfolding rough_normals_def Let_def
  by (subst fill_loop) (simp_all add: rough_normal_spec)

lemma rough_normals_nth:
  "in_bounds t x z \<Longrightarrow>
     rough_normals dv t ! nat z ! nat x = spec_raw_normal (w t) (l t) (height_fun t) x z"
  by (simp add: rough_normals_eq in_bounds_def)

lemma smooth_normal_spec:
  assumes "in_bounds t x z"
  shows "smooth_normal t (rough_normals dv t) x z = spec_normal (w t) (l t) (height_fun t) x z"
proof -
  let ?G = "rough_normals dv t"
  let ?raw = "spec_raw_normal (w t) (l t) (height_fun t)"
  have c: "?G ! nat z ! nat x = ?raw x z"
    using assms by (rule rough_normals_nth)
  have xm: "?G ! nat z ! nat (x - 1) = ?raw (x - 1) z" if "x > 0"
    using that assms by (intro rough_normals_nth) (simp add: in_bounds_def)
  have xp: "?G ! nat z ! nat (x + 1) = ?raw (x + 1) z" if "x < w t - 1"
    using that assms by (intro rough_normals_nth) (simp add: in_bounds_def)
  have zm: "?G ! nat (z - 1) ! nat x = ?raw x (z - 1)" if "z > 0"
    using that assms by (intro rough_normals_nth) (simp add: in_bounds_def)
  have zp: "?G ! nat (z + 1) ! nat x = ?raw x (z + 1)" if "z < l t - 1"
    using that assms by (intro rough_normals_nth) (simp add: in_bounds_def)
  have xm': "(if 0 < x then Vec3f_add s (Vec3f_scale (?G ! nat z ! nat (x - 1)) FALLOUT_RATIO) else s)
      = (if 0 < x then Vec3f_add s (Vec3f_scale (?raw (x - 1) z) FALLOUT_RATIO) else s)" for s
    using xm by simp
  have xp': "(if x < w t - 1 then Vec3f_add s (Vec3f_scale (?G ! nat z ! nat (x + 1)) FALLOUT_RATIO) else s)
      = (if x < w t - 1 then Vec3f_add s (Vec3f_scale (?raw (x + 1) z) FALLOUT_RATIO) else s)" for s
    using xp by simp
  have zm': "(if 0 < z then Vec3f_add s (Vec3f_scale (?G ! nat (z - 1) ! nat x) FALLOUT_RATIO) else s)
      = (if 0 < z then Vec3f_add s (Vec3f_scale (?raw x (z - 1)) FALLOUT_RATIO) else s)" for s
    using zm by simp
  have zp': "(if z < l t - 1 then Vec3f_add s (Vec3f_scale (?G ! nat (z + 1) ! nat x) FALLOUT_RATIO) else s)
      = (if z < l t - 1 then Vec3f_add s (Vec3f_scale (?raw x (z + 1)) FALLOUT_RATIO) else s)" for s
    using zp by simp
  have e: "(0 \<le> x - 1) = (0 < x)" "(x + 1 < w t) = (x < w t - 1)"
      "(0 \<le> z - 1) = (0 < z)" "(z + 1 < l t) = (z < l t - 1)"
    by auto
  show ?thesis
    unfolding smooth_normal_def Let_def c
    apply (simp only: xm' xp' zm' zp')
    apply (simp add: spec_normal_def Vec3f_sum_def Let_def FALLOUT_RATIO_def e Vec3f_add_zero)
    done
qed

lemma smooth_normals_eq:
  assumes "Terrain_ok t"
  shows "smooth_normals t (rough_normals dv t) =
     map (\<lambda>r. map (\<lambda>c. spec_normal (w t) (l t) (height_fun t) (int c) (int r))
                  [0..<nat (w t)]) [0..<nat (l t)]"
proof -
  have "smooth_normals t (rough_normals dv t) =
     map (\<lambda>r. map (\<lambda>c. smooth_normal t (rough_normals dv t) (int c) (int r))
                  [0..<nat (w t)]) [0..<nat (l t)]"
    unfolding smooth_normals_def using assms
    by (subst fill_loop) (simp_all add: Terrain_ok_def)
  also have "\<dots> = map (\<lambda>r. map (\<lambda>c. spec_normal (w t) (l t) (height_fun t) (int c) (int r))
                  [0..<nat (w t)]) [0..<nat (l t)]"
    by (intro map_cong refl smooth_normal_spec) (simp add: in_bounds_def, linarith)
  finally show ?thesis .
qed

lemma computeNormals_eq:
  assumes "Terrain_ok t" and "\<not> computedNormals t"
  shows "computeNormals dv t =
     t\<lparr> normals := map (\<lambda>r. map (\<lambda>c. spec_normal (w t) (l t) (height_fun t) (int c) (int r))
                                [0..<nat (w t)]) [0..<nat (l t)],
        computedNormals := True \<rparr>"
  using assms by (simp add: computeNormals_def Let_def smooth_normals_eq)

lemma computeNormals_nth:
  assumes "Terrain_ok t" and "\<not> computedNormals t" and "in_bounds t x z"
  shows "normals (computeNormals dv t) ! nat z ! nat x
         = spec_normal (w t) (l t) (height_fun t) x z"
  using assms by (simp add: computeNormals_eq in_bounds_def)

lemma computeNormals_ok: "Terrain_ok t \<Longrightarrow> Terrain_ok (computeNormals dv t)"
  by (cases "computedNormals t") (simp_all add: computeNormals_eq, simp_all add: Terrain_ok_def computeNormals_def)

lemma setHeight_ok:
  assumes "Terrain_ok t" and "setHeight t x z y = Inr t'"
  shows "Terrain_ok t' \<and> w t' = w t \<and> l t' = l t \<and> \<not> computedNormals t'"
proof -
  have t': "t' = t\<lparr> hs := (hs t)[nat z := (hs t ! nat z)[nat x := y]], computedNormals := False \<rparr>"
    and ib: "in_bounds t x z"
    using assms(2) by (auto simp: setHeight_def split: if_splits)
  have "length row = nat (w t)" if "row \<in> set ((hs t)[nat z := (hs t ! nat z)[nat x := y]])" for row
  proof -
    from that have "row = (hs t ! nat z)[nat x := y] \<or> row \<in> set (hs t)"
      using set_update_subset_insert by fastforce
    moreover have "hs t ! nat z \<in> set (hs t)"
      using ib assms(1) by (simp add: in_bounds_def Terrain_ok_def)
    ultimately show ?thesis using assms(1) by (auto simp: Terrain_ok_def)
  qed
  then show ?thesis using assms(1) by (simp add: t' Terrain_ok_def)
qed

text \<open>The flat terrains: every eligible pair contributes the unit vector \<open>(0, 1, 0)\<close>.\<close>

lemma flat_height:
  assumes "Terrain_ok t" "flat t c" "in_bounds t x z"
  shows "height_fun t z x = c"
proof -
  have "hs t ! nat z \<in> set (hs t)"
    using assms(1,3) by (simp add: Terrain_ok_def in_bounds_def)
  moreover from this have "length (hs t ! nat z) = nat (w t)"
    using assms(1) by (simp add: Terrain_ok_def)
  then have "hs t ! nat z ! nat x \<in> set (hs t ! nat z)"
    using assms(3) by (simp add: in_bounds_def)
  ultimately show ?thesis using assms(2) by (auto simp: flat_def height_fun_def)
qed

lemma unit_cross_flat:
  "Vec3f_normalize (Vec3f_cross (Vec3f 0 0 (- 1)) (Vec3f (- 1) 0 0)) = Vec3f 0 1 0"
  "Vec3f_normalize (Vec3f_cross (Vec3f (- 1) 0 0) (Vec3f 0 0 1)) = Vec3f 0 1 0"
  "Vec3f_normalize (Vec3f_cross (Vec3f 0 0 1) (Vec3f 1 0 0)) = Vec3f 0 1 0"
  "Vec3f_normalize (Vec3f_cross (Vec3f 1 0 0) (Vec3f 0 0 (- 1))) = Vec3f 0 1 0"
  by (simp_all add: Vec3f_normalize_def Vec3f_cross_def Vec3f_magnitude_def)

lemma flat_raw_normal:
  assumes ok: "Terrain_ok t" and fl: "flat t c" and ib: "in_bounds t x z"
  shows "spec_raw_normal (w t) (l t) (height_fun t) x z
         = Vec3f 0 (real (eligible_pairs (w t) (l t) x z)) 0"
proof -
  have h: "height_fun t z x = c" using flat_height[OF ok fl ib] .
  have out: "spec_out (height_fun t) x z = Vec3f 0 0 (- 1)" if "z > 0"
  proof -
    have "in_bounds t x (z - 1)" using ib that by (simp add: in_bounds_def)
    then show ?thesis using flat_height[OF ok fl] h by (simp add: spec_out_def)
  qed
  have inn: "spec_in (height_fun t) x z = Vec3f 0 0 1" if "z < l t - 1"
  proof -
    have "in_bounds t x (z + 1)" using ib that by (simp add: in_bounds_def)
    then show ?thesis using flat_height[OF ok fl] h by (simp add: spec_in_def)
  qed
  have left: "spec_left (height_fun t) x z = Vec3f (- 1) 0 0" if "x > 0"
  proof -
    have "in_bounds t (x - 1) z" using ib that by (simp add: in_bounds_def)
    then show ?thesis using flat_height[OF ok fl] h by (simp add: spec_left_def)
  qed
  have right: "spec_right (height_fun t) x z = Vec3f 1 0 0" if "x < w t - 1"
  proof -
    have "in_bounds t (x + 1) z" using ib that by (simp add: in_bounds_def)
    then show ?thesis using flat_height[OF ok fl] h by (simp add: spec_right_def)
  qed
  show ?thesis
    by (simp add: spec_raw_normal_def eligible_pairs_def Vec3f_sum_def out inn left right
        unit_cross_flat Vec3f_add_def cong: if_cong)
qed

lemma eligible_pairs_interior:
  assumes "0 < x" "x < W - 1" "0 < z" "z < L - 1"
  shows "eligible_pairs W L x z = 4"
    and "2 \<le> eligible_pairs W L (x - 1) z" and "eligible_pairs W L (x - 1) z \<le> 4"
    and "2 \<le> eligible_pairs W L (x + 1) z" and "eligible_pairs W L (x + 1) z \<le> 4"
    and "2 \<le> eligible_pairs W L x (z - 1)" and "eligible_pairs W L x (z - 1) \<le> 4"
    and "2 \<le> eligible_pairs W L x (z + 1)" and "eligible_pairs W L x (z + 1) \<le> 4"
  using assms by (simp_all add: eligible_pairs_def)

lemma flat_normal_y_bounds:
  assumes "0 < x" "x < W - 1" "0 < z" "z < L - 1"
  shows "8 \<le> flat_normal_y W L x z \<and> flat_normal_y W L x z \<le> 12"
proof -
  note e = eligible_pairs_interior[OF assms]
  have "4 + (2 + 2 + 2 + 2) / 2 \<le> flat_normal_y W L x z"
    unfolding flat_normal_y_def using e(1,2,4,6,8)
    by (intro add_mono divide_right_mono) simp_all
  moreover have "flat_normal_y W L x z \<le> 4 + (4 + 4 + 4 + 4) / 2"
    unfolding flat_normal_y_def using e(1,3,5,7,9)
    by (intro add_mono divide_right_mono) simp_all
  ultimately show ?thesis by simp
qed

lemma flat_spec_normal:
  assumes ok: "Terrain_ok t" and fl: "flat t c" and int: "interior t x z"
  shows "spec_normal (w t) (l t) (height_fun t) x z
         = Vec3f 0 (flat_normal_y (w t) (l t) x z) 0"
proof -
  have i: "0 < x" "x < w t - 1" "0 < z" "z < l t - 1"
    using int by (simp_all add: interior_def)
  have ib: "in_bounds t x z" "in_bounds t (x - 1) z" "in_bounds t (x + 1) z"
      "in_bounds t x (z - 1)" "in_bounds t x (z + 1)"
    using i by (simp_all add: in_bounds_def)
  note raw = ib[THEN flat_raw_normal[OF ok fl]]
  let ?s = "Vec3f 0 (flat_normal_y (w t) (l t) x z) 0"
  have s: "Vec3f_sum
                ([spec_raw_normal (w t) (l t) (height_fun t) x z] @
                 (if 0 \<le> x - 1 then [Vec3f_scale (spec_raw_normal (w t) (l t) (height_fun t) (x - 1) z) 0.5] else []) @
                 (if x + 1 < w t then [Vec3f_scale (spec_raw_normal (w t) (l t) (height_fun t) (x + 1) z) 0.5] else []) @
                 (if 0 \<le> z - 1 then [Vec3f_scale (spec_raw_normal (w t) (l t) (height_fun t) x (z - 1)) 0.5] else []) @
                 (if z + 1 < l t then [Vec3f_scale (spec_raw_normal (w t) (l t) (height_fun t) x (z + 1)) 0.5] else []))
       = ?s"
    using i by (simp add: raw Vec3f_sum_def Vec3f_add_def Vec3f_scale_def flat_normal_y_def
        add_divide_distrib)
  have "0 < flat_normal_y (w t) (l t) x z"
    using flat_normal_y_bounds[OF i] by simp
  then have "Vec3f_magnitude ?s \<noteq> 0"
    by (simp add: Vec3f_magnitude_def)
  then show ?thesis unfolding spec_normal_def s Let_def by simp
qed

lemma flat3_facts:
  "Terrain_ok flat3" "\<not> computedNormals flat3" "flat flat3 0" "interior flat3 1 1"
  "in_bounds flat3 1 1" "w flat3 = 3" "l flat3 = 3"
  by (simp_all add: flat3_def Terrain_ok_def flat_def interior_def in_bounds_def)

lemma flat3_center: "spec_normal 3 3 (height_fun flat3) 1 1 = Vec3f 0 8 0"
  using flat_spec_normal[OF flat3_facts(1,3,4)]
  by (simp add: flat3_facts flat_normal_y_def eligible_pairs_def)

text \<open>
  Claim C1: on a terrain with stale normals, \<open>computeNormals\<close> recomputes the whole
  normal field by the two-pass algorithm of the specification. Pass 1 leaves in the local
  grid, at every cell, the sum of the unit-normalised cross products of the eligible
  edge-vector pairs (\<open>spec_raw_normal\<close>); pass 2 stores, at every cell, the raw normal plus
  0.5 times the raw normal of each in-bounds 4-neighbour, replaced by \<open>(0, 1, 0)\<close> only when
  that sum has zero magnitude, and not normalised (\<open>spec_normal\<close>). The heights and the
  dimensions are unchanged and the normals are marked valid.
\<close>

theorem computeNormals_two_pass:
  assumes "Terrain_ok t" and "\<not> computedNormals t"
  shows "(\<forall>x z. in_bounds t x z \<longrightarrow>
            rough_normals dv t ! nat z ! nat x
              = spec_raw_normal (w t) (l t) (height_fun t) x z) \<and>
         (\<forall>x z. in_bounds t x z \<longrightarrow>
            normals (computeNormals dv t) ! nat z ! nat x
              = spec_normal (w t) (l t) (height_fun t) x z) \<and>
         computedNormals (computeNormals dv t) \<and>
         hs (computeNormals dv t) = hs t \<and>
         w (computeNormals dv t) = w t \<and> l (computeNormals dv t) = l t"
  using assms
  by (simp add: rough_normals_nth computeNormals_nth computeNormals_hs computeNormals_dims)
     (simp add: computeNormals_def Let_def)

theorem computeNormals_two_pass_witness:
  "Terrain_ok flat3 \<and> \<not> computedNormals flat3 \<and> in_bounds flat3 1 1 \<and>
   rough_normals (Vec3f 0 0 0) flat3 ! 1 ! 1 = spec_raw_normal 3 3 (height_fun flat3) 1 1 \<and>
   normals (computeNormals (Vec3f 0 0 0) flat3) ! 1 ! 1 = Vec3f 0 8 0 \<and>
   computedNormals (computeNormals (Vec3f 0 0 0) flat3) \<and>
   hs (computeNormals (Vec3f 0 0 0) flat3) = hs flat3"
proof -
  note c = computeNormals_two_pass[OF flat3_facts(1,2), of "Vec3f 0 0 0"]
  from c have "rough_normals (Vec3f 0 0 0) flat3 ! nat 1 ! nat 1
      = spec_raw_normal (w flat3) (l flat3) (height_fun flat3) 1 1"
    using flat3_facts(5) by blast
  moreover from c have "normals (computeNormals (Vec3f 0 0 0) flat3) ! nat 1 ! nat 1
      = spec_normal (w flat3) (l flat3) (height_fun flat3) 1 1"
    using flat3_facts(5) by blast
  ultimately show ?thesis
    using c by (simp add: flat3_facts flat3_center)
qed

text \<open>
  Claim C7: two calls of \<open>computeNormals\<close> in a row, with no \<open>setHeight\<close> in between,
  leave the same terrain, hence the same normal field, as one call: after the first call
  the normals are valid and the second call returns at once.
\<close>

theorem computeNormals_idempotent: "computeNormals dv' (computeNormals dv t) = computeNormals dv t \<and>
   computedNormals (computeNormals dv t) \<and>
   normals (computeNormals dv' (computeNormals dv t)) = normals (computeNormals dv t)"
  by (simp add: computeNormals_def Let_def)

theorem computeNormals_idempotent_witness:
  "computeNormals (Vec3f 1 2 3) (computeNormals (Vec3f 0 0 0) flat3)
     = computeNormals (Vec3f 0 0 0) flat3 \<and>
   computedNormals (computeNormals (Vec3f 0 0 0) flat3)"
  using computeNormals_idempotent[of "Vec3f 1 2 3" "Vec3f 0 0 0" flat3] by simp

text \<open>
  Claim C2: \<open>setHeight\<close> at an in-bounds cell succeeds, stores the height and marks the
  normals stale; the next \<open>getNormal\<close> at any in-bounds cell recomputes the whole field
  first and returns the normal of the two-pass algorithm on the current height field,
  whatever the normal grid held before.
\<close>

theorem getNormal_after_setHeight:
  assumes "Terrain_ok t" and "in_bounds t x' z'" and "in_bounds t x z"
  shows "\<exists>t1. setHeight t x' z' y = Inr t1 \<and> \<not> computedNormals t1 \<and>
           getHeight t1 x' z' = Inr y \<and>
           getNormal dv t1 x z =
             Inr (spec_normal (w t1) (l t1) (height_fun t1) x z, computeNormals dv t1)"
proof -
  obtain t1 where s: "setHeight t x' z' y = Inr t1"
    using assms(2) by (simp add: setHeight_def)
  have ok: "Terrain_ok t1" "w t1 = w t" "l t1 = l t" "\<not> computedNormals t1"
    using setHeight_ok[OF assms(1) s] by simp_all
  have ib: "in_bounds t1 x z" "in_bounds t1 x' z'"
    using assms(2,3) ok by (simp_all add: in_bounds_def)
  have "hs t1 = (hs t)[nat z' := (hs t ! nat z')[nat x' := y]]"
    using s assms(2) by (auto simp: setHeight_def)
  then have "getHeight t1 x' z' = Inr y"
    using ib(2) assms(1,2) by (simp add: getHeight_def in_bounds_def Terrain_ok_def)
  moreover have "getNormal dv t1 x z =
      Inr (spec_normal (w t1) (l t1) (height_fun t1) x z, computeNormals dv t1)"
    using ok ib by (simp add: getNormal_def Let_def in_bounds_computeNormals computeNormals_nth)
  ultimately show ?thesis using s ok by simp
qed

theorem getNormal_after_setHeight_witness:
  "Terrain_ok example_terrain \<and> in_bounds example_terrain 0 0 \<and>
   in_bounds example_terrain 1 1 \<and>
   (\<exists>t1. setHeight example_terrain 0 0 5 = Inr t1 \<and> \<not> computedNormals t1 \<and>
      getHeight t1 0 0 = Inr 5 \<and>
      getNormal (Vec3f 0 0 0) t1 1 1 =
        Inr (spec_normal (w t1) (l t1) (height_fun t1) 1 1, computeNormals (Vec3f 0 0 0) t1))"
proof -
  have a: "Terrain_ok example_terrain" "in_bounds example_terrain 0 0"
    "in_bounds example_terrain 1 1"
    by (simp_all add: example_terrain_def Terrain_ok_def in_bounds_def)
  show ?thesis
    using a getNormal_after_setHeight[OF a, of 5 "Vec3f 0 0 0"] by simp
qed

text \<open>
  Claim C3, as stated: on a perfectly flat height field every interior cell's normal is
  exactly \<open>(0, 1, 0)\<close>, because the raw cross products are zero and the fallback fires. It
  fails: on a flat field the edge vectors are \<open>(0, 0, \<plusminus>1)\<close> and \<open>(\<plusminus>1, 0, 0)\<close>, each
  cross product is \<open>(0, 1, 0)\<close>, and the centre of the flat 3\<times>3 terrain gets
  \<open>4 + 0.5 \<cdot> (2 + 2 + 2 + 2) = 8\<close> as its Y component.
\<close>

theorem flat_center_not_default_up:
  "normals (computeNormals (Vec3f 0 0 0) flat3) ! 1 ! 1 = Vec3f 0 8 0 \<and>
   normals (computeNormals (Vec3f 0 0 0) flat3) ! 1 ! 1 \<noteq> Vec3f 0 1 0"
  using computeNormals_nth[OF flat3_facts(1,2,5), of "Vec3f 0 0 0"]
  by (simp add: flat3_facts flat3_center)

text \<open>
  Claim C3, amended: on a perfectly flat height field, after \<open>computeNormals\<close> every
  interior cell's normal is \<open>(0, k, 0)\<close>, where \<open>k\<close> is 4 plus half the number of eligible
  pairs of its four neighbours, so \<open>8 \<le> k \<le> 12\<close>: each raw cross product is the unit
  vector \<open>(0, 1, 0)\<close>, and the zero-magnitude fallback does not fire.
\<close>

theorem flat_interior_normal:
  assumes "Terrain_ok t" and "\<not> computedNormals t" and "flat t c" and "interior t x z"
  shows "normals (computeNormals dv t) ! nat z ! nat x
           = Vec3f 0 (flat_normal_y (w t) (l t) x z) 0 \<and>
         8 \<le> flat_normal_y (w t) (l t) x z \<and> flat_normal_y (w t) (l t) x z \<le> 12"
proof -
  have i: "0 < x" "x < w t - 1" "0 < z" "z < l t - 1"
    using assms(4) by (simp_all add: interior_def)
  then have "in_bounds t x z" by (simp add: in_bounds_def)
  then show ?thesis
    using computeNormals_nth[OF assms(1,2)] flat_spec_normal[OF assms(1,3,4)]
      flat_normal_y_bounds[OF i] by simp
qed

theorem flat_interior_normal_witness:
  "Terrain_ok flat3 \<and> \<not> computedNormals flat3 \<and> flat flat3 0 \<and> interior flat3 1 1 \<and>
   normals (computeNormals (Vec3f 0 0 0) flat3) ! nat 1 ! nat 1 = Vec3f 0 8 0"
  using flat_interior_normal[OF flat3_facts(1,2,3,4), of "Vec3f 0 0 0"]
  by (simp add: flat3_facts flat_normal_y_def eligible_pairs_def)

section \<open>What loadTerrain returns\<close>

lemma pixel_index_in_range:
  fixes x y W H N M :: int
  assumes "0 \<le> x" "x < W" "0 \<le> y" "y < H"
  shows "0 \<le> y * W" and "y * W + x \<le> W * H - 1"
proof -
  show "0 \<le> y * W" using assms by simp
  have "(y + 1) * W \<le> H * W"
    using assms by (intro mult_right_mono) simp_all
  then show "y * W + x \<le> W * H - 1" using assms(2) by (simp add: algebra_simps)
qed

lemma index_bounds:
  fixes p q x m M :: int
  assumes "0 \<le> p" "p + x \<le> q - 1" "0 \<le> x" "3 * (q - 1) \<le> M" "m \<le> 0"
  shows "m \<le> p \<and> p \<le> M" and "m \<le> p + x \<and> p + x \<le> M"
    and "m \<le> 3 * (p + x) \<and> 3 * (p + x) \<le> M"
  using assms by auto

lemma buffer_bounds:
  fixes p q x :: int and n :: nat
  assumes "0 \<le> p" "p + x \<le> q - 1" "0 \<le> x" "3 * q \<le> int n"
  shows "0 \<le> 3 * (p + x) \<and> nat (3 * (p + x)) < n"
  using assms by auto

lemma pixel_index_decoded:
  assumes "index_fits img" "0 \<le> x" "x < width img" "0 \<le> y" "y < height img"
  shows "pixel_index img x y = Inr (3 * (y * width img + x))"
proof -
  note r = pixel_index_in_range[OF assms(2-5)]
  have m: "3 * (width img * height img - 1) \<le> INT_MAX"
    using assms(1) by (simp add: index_fits_def)
  have "INT_MIN \<le> 0" by (simp add: INT_MIN_def)
  note b = index_bounds[OF r assms(2) m this]
  show ?thesis
    by (simp only: pixel_index_def checked_int_def b simp_thms if_True sum.case)
qed

lemma sample_decoded:
  assumes "decoded img" "index_fits img" "0 \<le> x" "x < width img" "0 \<le> y" "y < height img"
  shows "sample img x y = Inr (pixels img ! nat (3 * (y * width img + x)))"
proof -
  have "3 * (width img * height img) \<le> int (length (pixels img))"
    using assms(1) by (simp add: decoded_def)
  note b = buffer_bounds[OF pixel_index_in_range[OF assms(3-6)] assms(3) this]
  show ?thesis
    by (simp only: sample_def pixel_index_decoded[OF assms(2-6)] pixel_at_def b
        simp_thms if_True sum.case)
qed

text \<open>An index that overflows, or that lies outside the buffer, is the only way for a read
  to fail.\<close>

lemma sample_error: "sample img x y = Inl e \<Longrightarrow> e = UndefinedBehaviour"
  by (auto simp: sample_def pixel_index_def checked_int_def pixel_at_def
      split: sum.splits if_splits)

text \<open>Two loops whose bodies commute with an embedding \<open>\<phi>\<close> of states, on the states
  satisfying \<open>Q\<close>, produce corresponding results.\<close>

lemma for_loop_sim:
  assumes "Q a"
    and "\<And>j a. i \<le> j \<Longrightarrow> j < n \<Longrightarrow> Q a \<Longrightarrow> body1 j (\<phi> a) = \<phi> (body2 j a) \<and> Q (body2 j a)"
  shows "for_loop i n body1 (\<phi> a) = \<phi> (for_loop i n body2 a) \<and> Q (for_loop i n body2 a)"
  using assms
proof (induction i n body1 "\<phi> a" arbitrary: a rule: for_loop.induct)
  case (1 i n body1)
  show ?case
  proof (cases "i < n")
    case True
    have s: "body1 i (\<phi> a) = \<phi> (body2 i a)" "Q (body2 i a)"
      using 1(3)[of i a] 1(2) True by simp_all
    have "for_loop (i + 1) n body1 (\<phi> (body2 i a))
        = \<phi> (for_loop (i + 1) n body2 (body2 i a)) \<and> Q (for_loop (i + 1) n body2 (body2 i a))"
      using 1(1)[OF True s(1) s(2)] 1(3) by simp
    then show ?thesis using True s by (simp add: for_loop_step)
  next
    case False
    then show ?thesis using 1(2) by (simp add: for_loop_stop)
  qed
qed

lemma grid_shape_update:
  assumes "length g = n" and "\<forall>r\<in>set g. length r = m" and "k < length g"
  shows "length (g[k := (g ! k)[j := v]]) = n \<and> (\<forall>r\<in>set (g[k := (g ! k)[j := v]]). length r = m)"
proof -
  have "length r = m" if "r \<in> set (g[k := (g ! k)[j := v]])" for r
  proof -
    from that have "r = (g ! k)[j := v] \<or> r \<in> set g"
      using set_update_subset_insert by fastforce
    moreover have "g ! k \<in> set g" using assms(3) by simp
    ultimately show ?thesis using assms(2) by auto
  qed
  then show ?thesis using assms(1) by simp
qed

lemma load_pixel_ok:
  assumes "sample img x y = Inr c" and "in_bounds t x y"
  shows "load_pixel img amplitude y x (Inr t)
         = Inr (t\<lparr> hs := (hs t)[nat y := (hs t ! nat y)[nat x := byte_height amplitude c]],
                  computedNormals := False \<rparr>)"
  using assms by (simp add: load_pixel_def setHeight_def byte_height_def Let_def)

lemma load_loops_decoded:
  assumes dec: "decoded img" and fits: "index_fits img" and ok: "Terrain_ok t0" and stale: "\<not> computedNormals t0"
    and dims: "w t0 = width img" "l t0 = height img"
  shows "for_loop 0 (height img) (\<lambda>y. for_loop 0 (width img) (\<lambda>x. load_pixel img amplitude y x))
           (Inr t0)
         = Inr (t0\<lparr> hs := image_heights img amplitude \<rparr>)"
proof -
  let ?W = "width img" and ?H = "height img"
  let ?F = "\<lambda>x y. byte_height amplitude (pixels img ! nat (3 * (y * ?W + x)))"
  let ?\<phi> = "\<lambda>g. (Inr (t0\<lparr> hs := g, computedNormals := False \<rparr>) :: error + Terrain)"
  let ?Q = "\<lambda>g. length g = nat ?H \<and> (\<forall>r\<in>set g. length r = nat ?W)"
  let ?upd = "\<lambda>y x (g :: real list list). g[nat y := (g ! nat y)[nat x := ?F x y]]"
  have inner: "for_loop 0 ?W (\<lambda>x. load_pixel img amplitude y x) (?\<phi> g)
        = ?\<phi> (for_loop 0 ?W (?upd y) g) \<and> ?Q (for_loop 0 ?W (?upd y) g)"
    if y: "0 \<le> y" "y < ?H" and Q: "?Q g" for y g
  proof (rule for_loop_sim[where Q = ?Q and \<phi> = ?\<phi>, OF Q])
    fix x and a :: "real list list"
    assume x: "0 \<le> x" "x < ?W" and Qa: "?Q a"
    have smp: "sample img x y = Inr (pixels img ! nat (3 * (y * ?W + x)))"
      using sample_decoded[OF dec fits x y] .
    have ib: "in_bounds (t0\<lparr> hs := a, computedNormals := False \<rparr>) x y"
      using x y dims by (simp add: in_bounds_def)
    have "nat y < length a" using y Qa by simp
    then have "?Q (?upd y x a)"
      using grid_shape_update[of a "nat ?H" "nat ?W" "nat y"] Qa by simp
    then show "load_pixel img amplitude y x (?\<phi> a) = ?\<phi> (?upd y x a) \<and> ?Q (?upd y x a)"
      using load_pixel_ok[OF smp ib] by simp
  qed
  have Q0: "?Q (hs t0)" using ok dims by (simp add: Terrain_ok_def)
  have "for_loop 0 ?H (\<lambda>y. for_loop 0 ?W (\<lambda>x. load_pixel img amplitude y x)) (?\<phi> (hs t0))
        = ?\<phi> (for_loop 0 ?H (\<lambda>y. for_loop 0 ?W (?upd y)) (hs t0))
        \<and> ?Q (for_loop 0 ?H (\<lambda>y. for_loop 0 ?W (?upd y)) (hs t0))"
    by (rule for_loop_sim[where Q = ?Q and \<phi> = ?\<phi>, OF Q0]) (use inner in blast)
  moreover have "for_loop 0 ?H (\<lambda>y. for_loop 0 ?W (?upd y)) (hs t0) = image_heights img amplitude"
    using Q0 unfolding image_heights_def by (subst fill_loop) simp_all
  moreover have "t0\<lparr> hs := hs t0, computedNormals := False \<rparr> = t0"
    using stale by simp
  moreover have "t0\<lparr> hs := image_heights img amplitude, computedNormals := False \<rparr>
      = t0\<lparr> hs := image_heights img amplitude \<rparr>"
    using stale by simp
  ultimately show ?thesis by simp
qed

text \<open>For a decoded image whose indices fit, the loader returns a terrain that depends on
  the image and the amplitude only, not on the content of the uninitialised storage.\<close>

lemma loadTerrain_decoded:
  assumes dec: "decoded img" and fits: "index_fits img"
  shows "loadTerrain img amplitude mem dv = Inr (loaded_terrain img amplitude)"
proof -
  let ?t0 = "\<lparr> w = width img, l = height img,
                hs = map (\<lambda>i. map (mem i) [0..<nat (width img)]) [0..<nat (height img)],
                normals = map (\<lambda>i. map (\<lambda>j. dv) [0..<nat (width img)]) [0..<nat (height img)],
                computedNormals = False \<rparr>"
  have n: "new_Terrain (width img) (height img) mem dv = Inr ?t0"
    using dec by (simp add: new_Terrain_eq decoded_def)
  have ok0: "Terrain_ok ?t0" "\<not> computedNormals ?t0" "w ?t0 = width img" "l ?t0 = height img"
    using new_Terrain_ok[OF n] by simp_all
  let ?t1 = "?t0\<lparr> hs := image_heights img amplitude \<rparr>"
  have loops: "for_loop 0 (height img) (\<lambda>y. for_loop 0 (width img) (\<lambda>x. load_pixel img amplitude y x))
           (Inr ?t0) = Inr ?t1"
    by (rule load_loops_decoded[OF dec fits ok0])
  have ok1: "Terrain_ok ?t1" "\<not> computedNormals ?t1"
    by (simp_all add: Terrain_ok_def image_heights_def)
  have "height_fun ?t1 = height_fun \<lparr> w = width img, l = height img,
      hs = image_heights img amplitude, normals = [], computedNormals = False \<rparr>"
    by (intro ext) (simp add: height_fun_def)
  then have "computeNormals dv ?t1 = loaded_terrain img amplitude"
    unfolding computeNormals_eq[OF ok1] loaded_terrain_def Let_def
    by simp
  then show ?thesis
    unfolding loadTerrain_def n using loops by simp
qed

lemma loaded_height_decoded:
  assumes "decoded img" "index_fits img" "0 \<le> x" "x < width img" "0 \<le> y" "y < height img"
  shows "loaded_height img amplitude mem dv x y
         = Inr (byte_height amplitude (pixels img ! nat (3 * (y * width img + x))))"
  using assms(3-6)
  by (simp add: loaded_height_def loadTerrain_decoded[OF assms(1,2)] loaded_terrain_def Let_def
      getHeight_def in_bounds_def image_heights_def)

lemma example_image_facts:
  "decoded example_image" "index_fits example_image"
  "width example_image = 2" "height example_image = 2"
  "decoded example_image2" "index_fits example_image2"
  "width example_image2 = 2" "height example_image2 = 2"
  by (simp_all add: decoded_def index_fits_def example_image_def example_image2_def INT_MAX_def)

lemma example_image_heights:
  "row_major_heights example_image 20 mem dv = [Inr (- 10), Inr (2 / 51), Inr 10, Inr (- 254 / 51)]"
proof -
  note d = example_image_facts(1,2)
  note w = example_image_facts(3,4)
  have "loaded_height example_image 20 mem dv 0 0 = Inr (- 10)"
    "loaded_height example_image 20 mem dv 1 0 = Inr (2 / 51)"
    "loaded_height example_image 20 mem dv 0 1 = Inr 10"
    "loaded_height example_image 20 mem dv 1 1 = Inr (- 254 / 51)"
    by (simp_all add: loaded_height_decoded[OF d] w)
       (simp_all add: example_image_def byte_height_def)
  then show ?thesis
    by (simp add: row_major_heights_def w upt_rec numeral_2_eq_2 numeral_3_eq_3)
qed

text \<open>A failed read ends the load: the error stays, whatever the later pixels are.\<close>

lemma load_pixel_error:
  "load_pixel img amplitude y x r = Inl e \<Longrightarrow> e = UndefinedBehaviour \<or> r = Inl e"
  by (auto simp: load_pixel_def setHeight_def Let_def dest: sample_error
      split: sum.splits if_splits)

lemma load_pixel_Inl: "load_pixel img amplitude y x (Inl e) = Inl e"
  by (simp add: load_pixel_def)

lemma load_pixel_fails:
  "sample img x y = Inl e \<Longrightarrow> load_pixel img amplitude y x (Inr t) = Inl UndefinedBehaviour"
  using sample_error[of img x y e] by (simp add: load_pixel_def)

lemma load_row_fails:
  assumes x0: "0 \<le> x0" "x0 < W" and s: "sample img x0 y = Inl e"
    and r: "r = Inl UndefinedBehaviour \<or> (\<exists>t. r = Inr t)"
  shows "for_loop 0 W (\<lambda>x. load_pixel img amplitude y x) r = Inl UndefinedBehaviour"
proof -
  let ?P = "\<lambda>j r. (r = Inl UndefinedBehaviour \<or> (\<exists>t. r = Inr t)) \<and>
                   (x0 < j \<longrightarrow> r = Inl UndefinedBehaviour)"
  have step: "?P (j + 1) (load_pixel img amplitude y j r)" if "0 \<le> j" "j < W" "?P j r" for j r
  proof -
    from that(3) consider "r = Inl UndefinedBehaviour" | t where "r = Inr t" "j \<le> x0"
      by force
    then show ?thesis
    proof cases
      case 1
      then show ?thesis by (simp add: load_pixel_Inl)
    next
      case 2
      show ?thesis
      proof (cases "j = x0")
        case True
        then show ?thesis using 2 load_pixel_fails[OF s] by simp
      next
        case False
        have "load_pixel img amplitude y j (Inr t) = Inl UndefinedBehaviour
            \<or> (\<exists>t'. load_pixel img amplitude y j (Inr t) = Inr t')"
          using load_pixel_error[of img amplitude y j "Inr t"]
          by (cases "load_pixel img amplitude y j (Inr t)") auto
        then show ?thesis using 2 False by auto
      qed
    qed
  qed
  have "0 \<le> W" using x0 by simp
  moreover have "?P 0 r" using r x0 by simp
  ultimately have "?P W (for_loop 0 W (\<lambda>x. load_pixel img amplitude y x) r)"
    by (rule for_loop_rule) (use step in blast)
  then show ?thesis using x0 by simp
qed

lemma load_row_Inl:
  "for_loop 0 W (\<lambda>x. load_pixel img amplitude y x) (Inl e) = Inl e"
proof (cases "0 \<le> W")
  case True
  have "(\<lambda>j r. r = Inl e) W (for_loop 0 W (\<lambda>x. load_pixel img amplitude y x) (Inl e))"
    by (rule for_loop_rule[OF True]) (simp_all add: load_pixel_Inl)
  then show ?thesis .
next
  case False
  then show ?thesis by (simp add: for_loop_stop)
qed

lemma load_row_outcome:
  assumes "r = Inl UndefinedBehaviour \<or> (\<exists>t. r = Inr t)"
  shows "for_loop 0 W (\<lambda>x. load_pixel img amplitude y x) r = Inl UndefinedBehaviour
       \<or> (\<exists>t. for_loop 0 W (\<lambda>x. load_pixel img amplitude y x) r = Inr t)"
proof (cases "0 \<le> W")
  case True
  let ?P = "\<lambda>j r. r = Inl UndefinedBehaviour \<or> (\<exists>t. r = Inr t)"
  have step: "?P (j + 1) (load_pixel img amplitude y j r)" if "?P j r" for j :: int and r
  proof -
    from that consider "r = Inl UndefinedBehaviour" | t where "r = Inr t" by auto
    then show ?thesis
    proof cases
      case 1
      then show ?thesis by (simp add: load_pixel_Inl)
    next
      case 2
      then show ?thesis
        using load_pixel_error[of img amplitude y j "Inr t"]
        by (cases "load_pixel img amplitude y j (Inr t)") auto
    qed
  qed
  have "?P W (for_loop 0 W (\<lambda>x. load_pixel img amplitude y x) r)"
    by (rule for_loop_rule[where P = ?P, OF True assms]) (use step in blast)
  then show ?thesis .
next
  case False
  then show ?thesis using assms by (simp add: for_loop_stop)
qed

lemma load_loops_fail:
  assumes x0: "0 \<le> x0" "x0 < W" and y0: "0 \<le> y0" "y0 < H" and s: "sample img x0 y0 = Inl e"
  shows "for_loop 0 H (\<lambda>y. for_loop 0 W (\<lambda>x. load_pixel img amplitude y x)) (Inr t0)
         = Inl UndefinedBehaviour"
proof -
  let ?row = "\<lambda>y. for_loop 0 W (\<lambda>x. load_pixel img amplitude y x)"
  let ?P = "\<lambda>j r. (r = Inl UndefinedBehaviour \<or> (\<exists>t. r = Inr t)) \<and>
                   (y0 < j \<longrightarrow> r = Inl UndefinedBehaviour)"
  have step: "?P (j + 1) (?row j r)" if "0 \<le> j" "j < H" "?P j r" for j r
  proof -
    have a: "?row j r = Inl UndefinedBehaviour \<or> (\<exists>t. ?row j r = Inr t)"
      using load_row_outcome that(3) by blast
    show ?thesis
    proof (cases "j < y0")
      case True
      then show ?thesis using a by simp
    next
      case False
      show ?thesis
      proof (cases "j = y0")
        case True
        then show ?thesis using load_row_fails[OF x0 s] that(3) by simp
      next
        case False
        with \<open>\<not> j < y0\<close> have "r = Inl UndefinedBehaviour" using that(3) by simp
        then show ?thesis by (simp add: load_row_Inl)
      qed
    qed
  qed
  have "0 \<le> H" using y0 by simp
  moreover have "?P 0 (Inr t0)" using y0 by simp
  ultimately have "?P H (for_loop 0 H ?row (Inr t0))"
    by (rule for_loop_rule) (use step in blast)
  then show ?thesis using y0 by simp
qed

lemma loadTerrain_fails:
  assumes "0 \<le> x0" "x0 < width img" "0 \<le> y0" "y0 < height img" "sample img x0 y0 = Inl e"
  shows "loadTerrain img amplitude mem dv = Inl UndefinedBehaviour"
proof -
  have "\<not> (height img < 0 \<or> (0 < height img \<and> width img < 0))" using assms by simp
  then obtain t0 where "new_Terrain (width img) (height img) mem dv = Inr t0"
    unfolding new_Terrain_eq by simp
  then show ?thesis
    unfolding loadTerrain_def using load_loops_fail[OF assms] by simp
qed

text \<open>The two large images: decoded, agreeing on the first channel, and not loaded.\<close>

lemma big_image_facts:
  "width big_image = 26755" "height big_image = 26755"
  "length (pixels big_image) = 2147490075"
  by (simp_all add: big_image_def)

lemma big_image_decoded: "decoded big_image"
  by (simp add: decoded_def big_image_facts INT_MAX_def)

lemma big_image_overflow: "sample big_image 26754 26754 = Inl UndefinedBehaviour"
  by (simp add: sample_def pixel_index_def checked_int_def big_image_facts INT_MAX_def
      INT_MIN_def)

lemma big_image_load: "loadTerrain big_image amplitude mem dv = Inl UndefinedBehaviour"
  by (rule loadTerrain_fails[OF _ _ _ _ big_image_overflow]) (simp_all add: big_image_facts)

lemma big_image2_facts:
  "width big_image2 = 26755" "height big_image2 = 26755"
  "length (pixels big_image2) = 2147490075"
  by (simp_all add: big_image2_def)

lemma big_image2_decoded: "decoded big_image2"
  by (simp add: decoded_def big_image2_facts INT_MAX_def)

lemma big_image2_overflow: "sample big_image2 26754 26754 = Inl UndefinedBehaviour"
  by (simp add: sample_def pixel_index_def checked_int_def big_image2_facts INT_MAX_def
      INT_MIN_def)

lemma big_image2_load: "loadTerrain big_image2 amplitude mem dv = Inl UndefinedBehaviour"
  by (rule loadTerrain_fails[OF _ _ _ _ big_image2_overflow]) (simp_all add: big_image2_facts)

lemma big_images_agree: "first_channel_agrees big_image big_image2"
  unfolding first_channel_agrees_def
proof (intro allI impI)
  fix x y :: int
  assume a: "0 \<le> x \<and> x < width big_image \<and> 0 \<le> y \<and> y < height big_image"
  then have r: "0 \<le> x" "x < 26755" "0 \<le> y" "y < 26755" by (simp_all add: big_image_facts)
  have "0 \<le> 3 * (y * 26755 + x) \<and> nat (3 * (y * 26755 + x)) < 2147490074"
    using r by auto
  then have i: "nat (3 * (y * width big_image + x)) < 2147490074"
    by (simp add: big_image_facts)
  have "pixels big_image ! nat (3 * (y * width big_image + x)) = 0"
    using i by (simp add: big_image_def)
  moreover have "pixels big_image2 ! nat (3 * (y * width big_image + x)) = 0"
    using i by (simp add: big_image2_def nth_append)
  ultimately show "pixels big_image ! nat (3 * (y * width big_image + x))
      = pixels big_image2 ! nat (3 * (y * width big_image + x))"
    by simp
qed

lemma big_images_differ: "pixels big_image \<noteq> pixels big_image2"
proof
  assume "pixels big_image = pixels big_image2"
  then have "last (pixels big_image) = last (pixels big_image2)" by simp
  then show False by (simp add: big_image_def big_image2_def)
qed

lemma image_heights_cong:
  assumes "width img1 = width img2" and "height img1 = height img2"
    and "\<forall>x y. 0 \<le> x \<and> x < width img1 \<and> 0 \<le> y \<and> y < height img1 \<longrightarrow>
           pixels img1 ! nat (3 * (y * width img1 + x))
             = pixels img2 ! nat (3 * (y * width img1 + x))"
  shows "image_heights img1 amplitude = image_heights img2 amplitude"
proof -
  have "pixels img1 ! nat (3 * (int r * width img2 + int c))
      = pixels img2 ! nat (3 * (int r * width img2 + int c))"
    if "r < nat (height img2)" "c < nat (width img2)" for r c
  proof -
    have "0 \<le> int c \<and> int c < width img1 \<and> 0 \<le> int r \<and> int r < height img1"
      using that assms(1,2) by linarith
    then show ?thesis using assms(3) assms(1) by metis
  qed
  then show ?thesis
    unfolding image_heights_def assms(1) assms(2)
    by (intro map_cong refl arg_cong[where f = "byte_height amplitude"]) simp
qed

lemma loaded_terrain_cong:
  assumes "width img1 = width img2" and "height img1 = height img2"
    and "image_heights img1 amplitude = image_heights img2 amplitude"
  shows "loaded_terrain img1 amplitude = loaded_terrain img2 amplitude"
  unfolding loaded_terrain_def assms ..

text \<open>
  Claim C8, as stated: for every decoded image the loader sets each cell's height to
  \<open>amplitude \<times> (c/255 \<minus> 0.5)\<close>, and for the 2\<times>2 image with channel bytes 0, 128, 255, 64
  and amplitude 20 the heights are approximately \<open>-10.0, -0.078, 10.0, -2.98\<close>. It fails
  twice. The listed values are not those of the formula: the loaded heights are within
  0.01 of \<open>-10.0, 0.039, 10.0, -4.98\<close>, not of the listed ones. And not every decoded
  image is loaded: the index \<^verbatim>\<open>3 * (y * image->width + x)\<close> is an \<^verbatim>\<open>int\<close>, which
  overflows on the 26755\<times>26755 image.
\<close>

theorem example_heights_not_as_listed:
  "approx_heights (1 / 100) (row_major_heights example_image 20 zero_mem (Vec3f 0 0 0))
     [- 10, 0.039, 10, - 4.98] \<and>
   \<not> approx_heights (1 / 100) (row_major_heights example_image 20 zero_mem (Vec3f 0 0 0))
        [- 10, - 0.078, 10, - 2.98] \<and>
   decoded big_image \<and>
   loadTerrain big_image 20 zero_mem (Vec3f 0 0 0) = Inl UndefinedBehaviour"
  by (simp add: example_image_heights approx_heights_def big_image_decoded big_image_load)

text \<open>
  Claim C8, amended: for every decoded image whose pixel indices \<open>3 \<times> (y \<times> width + x)\<close>
  fit in a 32-bit \<^verbatim>\<open>int\<close>, and every amplitude, the loader sets each cell's height to
  \<open>amplitude \<times> (c/255 \<minus> 0.5)\<close>, where \<open>c\<close> is the byte sampled for that pixel; in
  particular, for the 2\<times>2 image with channel bytes 0, 128, 255, 64 and amplitude 20 the
  heights are approximately \<open>-10.0, 0.039, 10.0, -4.98\<close> in row-major pixel order.
\<close>

theorem loadTerrain_scaling:
  "(decoded img \<and> index_fits img \<and> 0 \<le> x \<and> x < width img \<and> 0 \<le> y \<and> y < height img \<longrightarrow>
      (\<exists>c. sample img x y = Inr c \<and>
           loaded_height img amplitude mem dv x y
             = Inr (amplitude * (real (unat c) / 255 - 0.5)))) \<and>
   approx_heights (1 / 100) (row_major_heights example_image 20 mem dv)
     [- 10, 0.039, 10, - 4.98]"
proof -
  have "\<exists>c. sample img x y = Inr c \<and>
           loaded_height img amplitude mem dv x y
             = Inr (amplitude * (real (unat c) / 255 - 0.5))"
    if "decoded img" "index_fits img" "0 \<le> x" "x < width img" "0 \<le> y" "y < height img"
    using sample_decoded[OF that] loaded_height_decoded[OF that, of amplitude mem dv]
    by (simp add: byte_height_def)
  then show ?thesis
    by (simp add: example_image_heights approx_heights_def)
qed

theorem loadTerrain_scaling_witness:
  "decoded example_image \<and> index_fits example_image \<and>
   sample example_image 1 0 = Inr 128 \<and>
   loaded_height example_image 20 junk_mem (Vec3f 1 2 3) 1 0 = Inr (20 * (128 / 255 - 0.5))"
proof -
  have s: "sample example_image 1 0 = Inr 128"
    by (simp add: sample_def pixel_index_def checked_int_def pixel_at_def example_image_def
        INT_MAX_def INT_MIN_def)
  have b: "(0::int) \<le> 1" "(1::int) < width example_image" "(0::int) \<le> 0"
    "(0::int) < height example_image"
    by (simp_all add: example_image_def)
  show ?thesis
    using loadTerrain_scaling[of example_image 1 0 20 junk_mem "Vec3f 1 2 3"]
      example_image_facts(1,2) s b
    by simp
qed

text \<open>
  Claim C9, as stated: any two decoded images of equal width and height whose buffers
  agree at every index \<open>3 \<times> (y \<times> width + x)\<close> are loaded into identical terrains. It
  fails on the two 26755\<times>26755 images: they are decoded, of equal dimensions, agree on
  the first channel and differ in another byte, and neither is loaded into a terrain,
  because the index overflows the 32-bit \<^verbatim>\<open>int\<close>.
\<close>

theorem big_images_not_loaded:
  "decoded big_image \<and> decoded big_image2 \<and>
   width big_image = width big_image2 \<and> height big_image = height big_image2 \<and>
   first_channel_agrees big_image big_image2 \<and>
   pixels big_image \<noteq> pixels big_image2 \<and>
   loadTerrain big_image 20 zero_mem (Vec3f 0 0 0) = Inl UndefinedBehaviour \<and>
   loadTerrain big_image2 20 zero_mem (Vec3f 0 0 0) = Inl UndefinedBehaviour"
  by (simp add: big_image_decoded big_image2_decoded big_image_facts big_image2_facts
      big_images_agree big_images_differ big_image_load big_image2_load)

text \<open>
  Claim C9, amended: the loader reads only the first channel of each pixel. Any two decoded
  images of equal width and height whose pixel indices fit in a 32-bit \<^verbatim>\<open>int\<close> and
  whose buffers agree at every index \<open>3 \<times> (y \<times> width + x)\<close>, whatever their other bytes
  are, are loaded, with the same amplitude, into one and the same terrain, whatever the
  freshly allocated storage holds: it has the images' dimensions and, at every cell, the
  height of the sampled byte.
\<close>

theorem loadTerrain_first_channel_only:
  assumes "decoded img1" and "index_fits img1" and "decoded img2"
    and "width img1 = width img2" and "height img1 = height img2"
    and "first_channel_agrees img1 img2"
  shows "\<exists>t. loadTerrain img1 amplitude mem1 dv1 = Inr t \<and>
             loadTerrain img2 amplitude mem2 dv2 = Inr t \<and>
             w t = width img1 \<and> l t = height img1 \<and>
             (\<forall>x y. 0 \<le> x \<and> x < width img1 \<and> 0 \<le> y \<and> y < height img1 \<longrightarrow>
                getHeight t x y
                  = Inr (amplitude *
                      (real (unat (pixels img1 ! nat (3 * (y * width img1 + x)))) / 255 - 0.5)))"
proof -
  have fits2: "index_fits img2"
    using assms(2,4,5) by (simp add: index_fits_def)
  have eq: "loaded_terrain img1 amplitude = loaded_terrain img2 amplitude"
    by (rule loaded_terrain_cong[OF assms(4,5) image_heights_cong[OF assms(4,5)]])
       (use assms(6) in \<open>simp add: first_channel_agrees_def\<close>)
  let ?t = "loaded_terrain img1 amplitude"
  have 1: "loadTerrain img1 amplitude mem1 dv1 = Inr ?t"
    by (rule loadTerrain_decoded[OF assms(1,2)])
  have 2: "loadTerrain img2 amplitude mem2 dv2 = Inr ?t"
    unfolding eq by (rule loadTerrain_decoded[OF assms(3) fits2])
  have 3: "w ?t = width img1" "l ?t = height img1"
    by (simp_all add: loaded_terrain_def Let_def)
  have 4: "getHeight ?t x y
      = Inr (amplitude * (real (unat (pixels img1 ! nat (3 * (y * width img1 + x)))) / 255 - 0.5))"
    if "0 \<le> x \<and> x < width img1 \<and> 0 \<le> y \<and> y < height img1" for x y
    using loaded_height_decoded[OF assms(1,2), of x y amplitude mem1 dv1] that
    by (simp add: loaded_height_def 1 byte_height_def)
  show ?thesis using 1 2 3 4 by blast
qed

theorem loadTerrain_first_channel_only_witness:
  "decoded example_image \<and> index_fits example_image \<and> decoded example_image2 \<and>
   width example_image = width example_image2 \<and>
   height example_image = height example_image2 \<and>
   first_channel_agrees example_image example_image2 \<and>
   pixels example_image \<noteq> pixels example_image2 \<and>
   (\<exists>t. loadTerrain example_image 20 zero_mem (Vec3f 0 0 0) = Inr t \<and>
        loadTerrain example_image2 20 junk_mem (Vec3f 1 2 3) = Inr t \<and>
        w t = 2 \<and> l t = 2 \<and> getHeight t 0 1 = Inr 10)"
proof -
  note f = example_image_facts
  have wh: "width example_image = width example_image2"
    "height example_image = height example_image2"
    by (simp_all add: f)
  have "pixels example_image ! nat (3 * (y * width example_image + x))
      = pixels example_image2 ! nat (3 * (y * width example_image + x))"
    if "0 \<le> x \<and> x < width example_image \<and> 0 \<le> y \<and> y < height example_image" for x y
  proof -
    from that have "(x = 0 \<or> x = 1) \<and> (y = 0 \<or> y = 1)"
      by (auto simp: f)
    then show ?thesis
      by (auto simp: example_image_def example_image2_def)
  qed
  then have agree: "first_channel_agrees example_image example_image2"
    unfolding first_channel_agrees_def by blast
  from loadTerrain_first_channel_only[OF f(1) f(2) f(5) wh agree, of 20 zero_mem "Vec3f 0 0 0"
      junk_mem "Vec3f 1 2 3"]
  obtain t where t: "loadTerrain example_image 20 zero_mem (Vec3f 0 0 0) = Inr t"
    "loadTerrain example_image2 20 junk_mem (Vec3f 1 2 3) = Inr t"
    "w t = width example_image" "l t = height example_image"
    "\<forall>x y. 0 \<le> x \<and> x < width example_image \<and> 0 \<le> y \<and> y < height example_image \<longrightarrow>
       getHeight t x y = Inr (20 * (real (unat (pixels example_image !
          nat (3 * (y * width example_image + x)))) / 255 - 0.5))"
    by blast
  from t(5) have "getHeight t 0 1 = Inr (20 * (real (unat (pixels example_image !
          nat (3 * (1 * width example_image + 0)))) / 255 - 0.5))"
    using f(3,4) by simp
  then have "getHeight t 0 1 = Inr 10"
    by (simp add: example_image_def)
  moreover have "pixels example_image \<noteq> pixels example_image2"
    by (simp add: example_image_def example_image2_def)
  ultimately show ?thesis using t(1-4) f wh agree by auto
qed

section \<open>The score\<close>

text \<open>The comparison of \<^verbatim>\<open>detect\<close> without the square root.\<close>

lemma sqrt_less_7_5: "sqrt a < 7.5 \<longleftrightarrow> a < 56.25"
proof -
  have e: "sqrt (56.25 :: real) = 7.5"
    by (rule real_sqrt_unique) (simp_all add: power2_eq_square)
  show ?thesis using real_sqrt_less_iff[of a "56.25"] unfolding e .
qed

lemma near_target_iff:
  "near_target g \<longleftrightarrow>
     (xpos g - tarx g) * (xpos g - tarx g)
       + (zpos g - tarz g - 22) * (zpos g - tarz g - 22) < 56.25"
  unfolding near_target_def by (rule sqrt_less_7_5)

lemma update_score: "score (update g) = score g"
  by (simp add: update_def Let_def)

lemma handleKeypress2_score: "score (handleKeypress2 k g) = score g"
  by (simp add: handleKeypress2_def)

lemma handleKeypress_score: "handleKeypress k g = Some g' \<Longrightarrow> score g' = score g"
  by (auto simp: handleKeypress_def split: if_splits)

lemma detect_hit:
  "near_target g \<Longrightarrow> score g < INT_MAX \<Longrightarrow>
     detect r g = Inr ((startup r)\<lparr> score := score g + 1 \<rparr>)"
  by (simp add: detect_def startup_def)

lemma detect_miss: "\<not> near_target g \<Longrightarrow> detect r g = Inr g"
  by (simp add: detect_def)

lemma detect_score: "detect r g = Inr g' \<Longrightarrow> score g \<le> score g'"
  by (auto simp: detect_def split: if_splits)

lemma step_score:
  assumes "step e g = Some g'"
  shows "score g \<le> score g'"
proof (cases e)
  case Timer
  then show ?thesis using assms by (auto simp: update_score)
next
  case (Detect r)
  then show ?thesis using assms detect_score[of r g] by (auto split: sum.splits)
next
  case (Key k)
  then show ?thesis using assms handleKeypress_score[of k g g'] by simp
next
  case (Special k)
  then show ?thesis using assms by (auto simp: handleKeypress2_score)
qed

lemma run_score: "run es g = Some g' \<Longrightarrow> score g \<le> score g'"
proof (induction es arbitrary: g)
  case Nil
  then show ?case by simp
next
  case (Cons e es)
  then obtain g1 where s: "step e g = Some g1" and r: "run es g1 = Some g'"
    by (auto split: option.splits)
  from step_score[OF s] Cons.IH[OF r] show ?case by simp
qed

lemma target_reached_near: "near_target target_reached"
  by (simp add: near_target_iff target_reached_def startup_def)

lemma startup_far: "\<not> near_target (startup 0)"
  by (simp add: near_target_iff startup_def)

lemma handleKeypress_total:
  "k \<noteq> CHR 0x1B \<Longrightarrow> \<exists>g1. handleKeypress k g = Some g1 \<and> score g1 = score g"
  by (simp add: handleKeypress_def)

lemma handleKeypress_exit: "handleKeypress (CHR 0x1B) g = None"
  by (simp add: handleKeypress_def)

lemma detect_overflow:
  "near_target g \<Longrightarrow> score g = INT_MAX \<Longrightarrow> detect r g = Inl UndefinedBehaviour"
  by (simp add: detect_def)

lemma detect_total:
  "score g < INT_MAX \<Longrightarrow>
     \<exists>g1. detect r g = Inr g1 \<and> score g \<le> score g1 \<and> score g1 \<le> score g + 1"
  by (simp add: detect_def)

text \<open>Below \<open>INT_MAX\<close> every step but the Escape key has a successor, and the score grows by
  at most one.\<close>

lemma step_total:
  assumes "e \<noteq> Key (CHR 0x1B)" and "score g < INT_MAX"
  shows "\<exists>g1. step e g = Some g1 \<and> score g \<le> score g1 \<and> score g1 \<le> score g + 1"
proof (cases e)
  case Timer
  then show ?thesis by (simp add: update_score)
next
  case (Detect r)
  then show ?thesis using detect_total[OF assms(2), of r] by auto
next
  case (Key k)
  then show ?thesis using assms(1) handleKeypress_total[of k g] by auto
next
  case (Special k)
  then show ?thesis by (simp add: handleKeypress2_score)
qed

lemma run_total:
  "Key (CHR 0x1B) \<notin> set es \<Longrightarrow> score g + int (length es) \<le> INT_MAX \<Longrightarrow>
     \<exists>g2. run es g = Some g2 \<and> score g \<le> score g2 \<and> score g2 \<le> score g + int (length es)"
proof (induction es arbitrary: g)
  case Nil
  then show ?case by simp
next
  case (Cons e es)
  have "e \<noteq> Key (CHR 0x1B)" "score g < INT_MAX" using Cons.prems by auto
  from step_total[OF this] obtain g1 where
    s: "step e g = Some g1" "score g \<le> score g1" "score g1 \<le> score g + 1"
    by blast
  have "Key (CHR 0x1B) \<notin> set es" "score g1 + int (length es) \<le> INT_MAX"
    using Cons.prems s(3) by auto
  from Cons.IH[OF this] obtain g2 where
    r: "run es g1 = Some g2" "score g1 \<le> score g2" "score g2 \<le> score g1 + int (length es)"
    by blast
  show ?case using s r by simp
qed

lemma score_at_max_facts:
  "near_target score_at_max" "score score_at_max = INT_MAX"
  by (simp_all add: near_target_iff score_at_max_def target_reached_def startup_def)

text \<open>
  Claim C10, as stated: over every step of the game the score never decreases, and
  \<open>detect\<close> adds exactly 1 to it whenever the avatar is within 7.5 of the target. It fails
  at the largest \<^verbatim>\<open>int\<close>: \<^verbatim>\<open>score\<close> is a 32-bit counter with no guard, and
  \<^verbatim>\<open>score+=1\<close> at 2147483647 is a signed overflow, which does not yield 2147483648.
\<close>

theorem score_increment_overflows:
  "near_target score_at_max \<and> score score_at_max = INT_MAX \<and>
   detect 7 score_at_max = Inl UndefinedBehaviour \<and>
   detect 7 score_at_max \<noteq> Inr ((startup 7)\<lparr> score := score score_at_max + 1 \<rparr>) \<and>
   step (Detect 7) score_at_max = None"
  using detect_overflow[OF score_at_max_facts, of 7] by (simp add: score_at_max_facts)

text \<open>
  Claim C10, amended: as long as the score is below \<open>INT_MAX = 2147483647\<close>, it never
  decreases over any sequence of steps of the game (timer update, proximity detection,
  keyboard and special-key handlers), and every step but the Escape key, which exits, has
  a successor state. \<open>update\<close> and the two keyboard handlers leave the score unchanged;
  \<open>detect\<close> is the only operation that changes it: when
  \<open>sqrt((xpos \<minus> tarx)\<^sup>2 + (zpos \<minus> tarz \<minus> 22)\<^sup>2) < 7.5\<close> and the score is below
  \<open>INT_MAX\<close> it adds exactly 1 and resets every other global (position, velocity, camera,
  acceleration) to its startup value, with a new random \<open>tarz\<close>; when the test fails it
  leaves the whole state unchanged; at \<open>INT_MAX\<close> a hit overflows the counter, which is
  undefined behaviour.
\<close>

theorem score_never_decreases_below_INT_MAX:
  "(Key (CHR 0x1B) \<notin> set es \<and> score g + int (length es) \<le> INT_MAX \<longrightarrow>
      (\<exists>g2. run es g = Some g2 \<and> score g \<le> score g2 \<and>
            score g2 \<le> score g + int (length es))) \<and>
   (run es g = Some g' \<longrightarrow> score g \<le> score g') \<and>
   score (update g) = score g \<and>
   score (handleKeypress2 k2 g) = score g \<and>
   (handleKeypress k g = Some g1 \<longrightarrow> score g1 = score g) \<and>
   (near_target g \<and> score g < INT_MAX \<longrightarrow>
      detect r g = Inr ((startup r)\<lparr> score := score g + 1 \<rparr>)) \<and>
   (\<not> near_target g \<longrightarrow> detect r g = Inr g) \<and>
   (near_target g \<and> score g = INT_MAX \<longrightarrow> detect r g = Inl UndefinedBehaviour)"
  using run_total[of es g] run_score[of es g g'] handleKeypress_score[of k g g1]
    detect_hit[of g r] detect_miss[of g r] detect_overflow[of g r]
  by (simp add: update_score handleKeypress2_score)

theorem score_never_decreases_below_INT_MAX_witness:
  "Key (CHR 0x1B) \<notin> set [Timer, Detect 7] \<and>
   score target_reached + int (length [Timer, Detect 7]) \<le> INT_MAX \<and>
   near_target target_reached \<and> score target_reached < INT_MAX \<and>
   detect 7 target_reached = Inr ((startup 7)\<lparr> score := 31 \<rparr>) \<and>
   \<not> near_target (startup 0) \<and> detect 7 (startup 0) = Inr (startup 0) \<and>
   handleKeypress (CHR ''u'') (startup 0) = Some ((startup 0)\<lparr> xpos := 9 \<rparr>) \<and>
   score ((startup 0)\<lparr> xpos := 9 \<rparr>) = 30 \<and>
   run [Timer, Detect 7] target_reached = Some ((startup 7)\<lparr> score := 31 \<rparr>) \<and>
   score target_reached \<le> score ((startup 7)\<lparr> score := 31 \<rparr>) \<and>
   near_target score_at_max \<and> score score_at_max = INT_MAX \<and>
   detect 7 score_at_max = Inl UndefinedBehaviour"
proof -
  have a: "score target_reached < INT_MAX" "score target_reached = 30"
    by (simp_all add: target_reached_def startup_def INT_MAX_def)
  have k: "handleKeypress (CHR ''u'') (startup 0) = Some ((startup 0)\<lparr> xpos := 9 \<rparr>)"
    by (simp add: handleKeypress_def startup_def)
  have u: "update target_reached = target_reached"
    by (simp add: update_def Let_def target_reached_def startup_def)
  have d: "detect 7 target_reached = Inr ((startup 7)\<lparr> score := 31 \<rparr>)"
    using score_never_decreases_below_INT_MAX[of "[]" target_reached target_reached 0
        "CHR ''u''" target_reached 7]
      target_reached_near a by simp
  have r: "run [Timer, Detect 7] target_reached = Some ((startup 7)\<lparr> score := 31 \<rparr>)"
    by (simp add: u d)
  have m: "score target_reached + int (length [Timer, Detect 7]) \<le> INT_MAX"
    by (simp add: a INT_MAX_def)
  have o: "detect 7 score_at_max = Inl UndefinedBehaviour"
    using score_never_decreases_below_INT_MAX[of "[]" score_at_max score_at_max 0
        "CHR ''u''" score_at_max 7] score_at_max_facts by simp
  show ?thesis
    using score_never_decreases_below_INT_MAX[of "[Timer, Detect 7]" target_reached
        "(startup 7)\<lparr> score := 31 \<rparr>" 0 "CHR ''u''" "(startup 0)\<lparr> xpos := 9 \<rparr>" 7]
      score_never_decreases_below_INT_MAX[of "[]" "startup 0" "startup 0" 0 "CHR ''u''"
        "(startup 0)\<lparr> xpos := 9 \<rparr>" 7]
      target_reached_near startup_far a k d r m o score_at_max_facts
    by (simp add: startup_def)
qed


end
